theory Spec2Isabelle
  imports Complex_Main "HOL-Library.Word"
begin

section \<open>ArtifexAI backend (backend/main.py): a shallow embedding\<close>

text \<open>
  Conventions of the embedding.
  \<^item> Python \<open>int\<close> is \<open>int\<close>; Python and numpy floats are idealised as \<open>real\<close>
    (no rounding, no overflow). Where the source itself produces a not-a-number or an
    infinity from a domain error (\<open>log1p\<close> at or below \<open>-1\<close>, numpy's division by a zero
    sum), the value is one of the constructors \<open>FNaN\<close>, \<open>FNegInf\<close> below.
  \<^item> \<open>str\<close> is \<open>string\<close>, the UTF-8 bytes of the text. On a text of ASCII characters
    \<open>lower\<close>, \<open>strip\<close> and \<open>split\<close> are defined here; on any other text they are
    Python's, taken as parameters.
  \<^item> A raised exception is \<open>Inl\<close> of a sum type, a returned value is \<open>Inr\<close>.
  \<^item> The SQLite tables are finite maps from their primary key to a row whose columns
    hold values of the declared column types.
  \<^item> Library calls whose result is not determined by this repository (OpenCV image
    decoding and resizing, numpy's SVD, the trained model, pandas' number parser and
    Python's float printer) are parameters.
\<close>

subsection \<open>Values, exceptions and library functions\<close>

datatype exn = AttributeError | KeyError | IndexError | ZeroDivisionError | TypeError
  | LibraryError | RaisedHTTPException

datatype http_error = HTTPException nat

text \<open>
  A slot of the feature row holds text, an integer or a float; \<open>FNaN\<close> and \<open>FNegInf\<close>
  are the two non-finite floats the source can produce from finite input.
\<close>

datatype pyval = S string | I int | F real | FNaN | FNegInf

text \<open>
  The library functions whose result this repository does not determine: Python's
  \<open>str.lower\<close>, \<open>str.strip\<close> and \<open>str.split\<close> on a text that is not pure ASCII (Unicode
  case mapping and white space), Python's printer of a float that is not a whole
  number, and pandas' reading of a text as a number (\<open>None\<close> when it is none).
\<close>

record pylib =
  str_lower :: "string \<Rightarrow> string"
  str_strip :: "string \<Rightarrow> string"
  str_split :: "string \<Rightarrow> string list"
  float_repr :: "real \<Rightarrow> string"
  to_numeric_str :: "string \<Rightarrow> pyval option"

subsection \<open>Strings\<close>

text \<open>A byte below 128 is an ASCII character; a text of such bytes is pure ASCII.\<close>

definition is_ascii :: "char \<Rightarrow> bool" where
  "is_ascii c = (\<not> digit7 c)"

text \<open>\<open>str.lower\<close> changes exactly the letters A to Z of a pure ASCII text.\<close>

definition lower_char :: "char \<Rightarrow> char" where
  "lower_char c =
     (case map_of (zip ''ABCDEFGHIJKLMNOPQRSTUVWXYZ'' ''abcdefghijklmnopqrstuvwxyz'') c of
        Some d \<Rightarrow> d
      | None \<Rightarrow> c)"

definition py_lower :: "pylib \<Rightarrow> string \<Rightarrow> string" where
  "py_lower lib s = (if list_all is_ascii s then map lower_char s else str_lower lib s)"

text \<open>ASCII whitespace of \<open>str.isspace\<close>: codes 9 to 13, 28 to 31 and the blank.\<close>

definition is_space :: "char \<Rightarrow> bool" where
  "is_space c =
     (c \<in> set [CHR 0x09, CHR 0x0A, CHR 0x0B, CHR 0x0C, CHR 0x0D,
                CHR 0x1C, CHR 0x1D, CHR 0x1E, CHR 0x1F, CHR '' ''])"

definition py_strip :: "pylib \<Rightarrow> string \<Rightarrow> string" where
  "py_strip lib s =
     (if list_all is_ascii s then rev (dropWhile is_space (rev (dropWhile is_space s)))
      else str_strip lib s)"

text \<open>\<open>sub in s\<close> on strings: \<open>sub\<close> occurs in \<open>s\<close> as a contiguous run.\<close>

fun py_in :: "string \<Rightarrow> string \<Rightarrow> bool" where
  "py_in sub [] = (sub = [])"
| "py_in sub (c # cs) = (take (length sub) (c # cs) = sub \<or> py_in sub cs)"

text \<open>\<open>s.split()\<close> on pure ASCII: the maximal runs of non-whitespace characters, in order.\<close>

fun py_split_from :: "string \<Rightarrow> string \<Rightarrow> string list" where
  "py_split_from cur [] = (if cur = [] then [] else [rev cur])"
| "py_split_from cur (c # cs) =
     (if is_space c
      then (if cur = [] then py_split_from [] cs else rev cur # py_split_from [] cs)
      else py_split_from (c # cur) cs)"

definition py_split :: "pylib \<Rightarrow> string \<Rightarrow> string list" where
  "py_split lib s = (if list_all is_ascii s then py_split_from [] s else str_split lib s)"

subsection \<open>Reference store (class DatabaseManager)\<close>

record artist_data =
  frequency :: int
  median_price :: real
  price_std :: real

record tech_artist_data =
  ta_median_price :: real
  sample_count :: int

text \<open>
  Table \<open>artists\<close> has primary key \<open>name\<close>; table \<open>technique_artist_medians\<close> has primary
  key \<open>(technique, artist)\<close>. \<open>WHERE name = ?\<close> compares text exactly.
\<close>

record database =
  artists :: "string \<rightharpoonup> artist_data"
  technique_artist_medians :: "string \<times> string \<rightharpoonup> tech_artist_data"

definition sample_artists :: "(string \<times> artist_data) list" where
  "sample_artists =
    [(''pablo picasso'', \<lparr>frequency = 150, median_price = 50000, price_std = 25000\<rparr>),
     (''salvador dali'', \<lparr>frequency = 80, median_price = 30000, price_std = 15000\<rparr>),
     (''vincent van gogh'', \<lparr>frequency = 200, median_price = 75000, price_std = 40000\<rparr>),
     (''claude monet'', \<lparr>frequency = 120, median_price = 40000, price_std = 20000\<rparr>),
     (''andy warhol'', \<lparr>frequency = 100, median_price = 35000, price_std = 18000\<rparr>)]"

definition sample_tech_artist :: "((string \<times> string) \<times> tech_artist_data) list" where
  "sample_tech_artist =
    [((''oil on canvas'', ''pablo picasso''), \<lparr>ta_median_price = 55000, sample_count = 25\<rparr>),
     ((''oil on canvas'', ''vincent van gogh''), \<lparr>ta_median_price = 80000, sample_count = 30\<rparr>),
     ((''oil on canvas'', ''claude monet''), \<lparr>ta_median_price = 45000, sample_count = 20\<rparr>),
     ((''lithograph'', ''andy warhol''), \<lparr>ta_median_price = 25000, sample_count = 15\<rparr>),
     ((''etching'', ''salvador dali''), \<lparr>ta_median_price = 20000, sample_count = 10\<rparr>),
     ((''watercolor'', ''pablo picasso''), \<lparr>ta_median_price = 30000, sample_count = 12\<rparr>),
     ((''screenprint'', ''andy warhol''), \<lparr>ta_median_price = 15000, sample_count = 8\<rparr>)]"

text \<open>
  \<open>init_database\<close>: the tables are created if missing; when \<open>artists\<close> is empty both
  sample lists are written with \<open>INSERT OR REPLACE\<close>, in list order.
\<close>

definition insert_or_replace :: "('k \<rightharpoonup> 'v) \<Rightarrow> ('k \<times> 'v) list \<Rightarrow> ('k \<rightharpoonup> 'v)" where
  "insert_or_replace t rows = fold (\<lambda>(k, v) m. m(k \<mapsto> v)) rows t"

definition init_database :: "database \<Rightarrow> database" where
  "init_database db =
     (if artists db = Map.empty
      then \<lparr>artists = insert_or_replace (artists db) sample_artists,
            technique_artist_medians =
              insert_or_replace (technique_artist_medians db) sample_tech_artist\<rparr>
      else db)"

definition empty_database :: database where
  "empty_database = \<lparr>artists = Map.empty, technique_artist_medians = Map.empty\<rparr>"

definition get_artist_data :: "pylib \<Rightarrow> database \<Rightarrow> string \<Rightarrow> artist_data" where
  "get_artist_data lib db artist_name =
     (case artists db (py_lower lib artist_name) of
        Some result \<Rightarrow> result
      | None \<Rightarrow> \<lparr>frequency = 1, median_price = 500, price_std = 250\<rparr>)"

definition get_tech_artist_median :: "pylib \<Rightarrow> database \<Rightarrow> string \<Rightarrow> string \<Rightarrow> tech_artist_data" where
  "get_tech_artist_median lib db technique artist =
     (case technique_artist_medians db (py_lower lib technique, py_lower lib artist) of
        Some result \<Rightarrow> result
      | None \<Rightarrow> \<lparr>ta_median_price = 1000, sample_count = 1\<rparr>)"

subsection \<open>Request body and feature values\<close>

text \<open>
  \<open>class ArtworkInput(BaseModel)\<close>: every field is declared with a type and a
  description only; the first nine are required, the others have defaults.
\<close>

record ArtworkInput =
  artist :: string
  object_type :: string
  technique :: string
  signature :: string
  condition :: string
  edition_type :: string
  year :: int
  width :: real
  height :: real
  has_edition :: bool
  has_certificate :: bool
  has_frame :: bool
  has_damage :: bool
  expert :: string
  colorfulness_score :: "real option"
  svd_entropy :: "real option"
  title :: "string option"
  title_word_count :: "int option"

type_synonym row = "(string \<times> pyval) list"

definition np_log1p :: "real \<Rightarrow> pyval" where
  "np_log1p x = (if x > -1 then F (ln (1 + x)) else if x = -1 then FNegInf else FNaN)"

text \<open>
  \<open>np.log1p\<close> of a Python \<open>int\<close>: numpy takes an integer from \<open>-2^63\<close> up to \<open>2^64 - 1\<close>
  as a 64-bit number; any other becomes an object, on which \<open>log1p\<close> raises \<open>TypeError\<close>.
\<close>

definition np_log1p_int :: "int \<Rightarrow> exn + pyval" where
  "np_log1p_int i =
     (if - (2 ^ 63) \<le> i \<and> i < 2 ^ 64 then Inr (np_log1p (real_of_int i))
      else Inl TypeError)"

text \<open>The idiom \<open>1 if c else 0\<close>.\<close>

definition flag :: "bool \<Rightarrow> int" where
  "flag c = (if c then 1 else 0)"

text \<open>\<open>x or 0.0\<close> on an optional float: \<open>None\<close> and \<open>0.0\<close> are falsy.\<close>

fun or_zero :: "real option \<Rightarrow> real" where
  "or_zero None = 0.0"
| "or_zero (Some v) = (if v \<noteq> 0 then v else 0.0)"

subsection \<open>Feature groups of create\_all\_57\_features (lines 267 to 418)\<close>

text \<open>
  Each definition is one numbered group of the source, in source order; a group that
  reads earlier entries of \<open>features\<close> takes them as arguments. A division by a Python
  float or int that is zero raises \<open>ZeroDivisionError\<close>. The numeral \<open>0.00000001\<close>
  is the source's \<open>1e-8\<close>.
\<close>

definition categorical_group :: "pylib \<Rightarrow> ArtworkInput \<Rightarrow> row" where
  "categorical_group lib input_data =
     [(''OBJECT'', S (py_lower lib (object_type input_data))),
      (''ARTIST'', S (py_strip lib (py_lower lib (artist input_data)))),
      (''EXPERT'', S (py_lower lib (expert input_data))),
      (''TECHNIQUE_SIMPLE'', S (py_lower lib (technique input_data))),
      (''SIGNATURE_SIMPLE'', S (py_lower lib (signature input_data))),
      (''CONDITION_SIMPLE'', S (py_lower lib (condition input_data)))]"

definition edition_map :: "string \<rightharpoonup> real" where
  "edition_map = map_of
     [(''unique'', 1.0), (''numbered'', 2.0), (''limited'', 3.0), (''open'', 4.0),
      (''unknown'', 0.0)]"

definition edition_group :: "pylib \<Rightarrow> ArtworkInput \<Rightarrow> row" where
  "edition_group lib input_data =
     [(''edition_type'',
         F (case edition_map (py_lower lib (edition_type input_data)) of
              Some v \<Rightarrow> v | None \<Rightarrow> 0.0)),
      (''EDITION_TYPE'', S (py_lower lib (edition_type input_data)))]"

definition numeric_group :: "pylib \<Rightarrow> ArtworkInput \<Rightarrow> row" where
  "numeric_group lib input_data =
     [(''width'', F (width input_data)),
      (''height'', F (height input_data)),
      (''area'', F (width input_data * height input_data)),
      (''EXPERT_RAW'', S (py_lower lib (expert input_data))),
      (''auction_year'', I 2024)]"

definition has_hand_signed :: "pylib \<Rightarrow> ArtworkInput \<Rightarrow> int" where
  "has_hand_signed lib input_data = flag (py_in ''hand'' (py_lower lib (signature input_data)))"

definition has_plate_signed :: "pylib \<Rightarrow> ArtworkInput \<Rightarrow> int" where
  "has_plate_signed lib input_data = flag (py_in ''plate'' (py_lower lib (signature input_data)))"

definition has_unsigned :: "pylib \<Rightarrow> ArtworkInput \<Rightarrow> int" where
  "has_unsigned lib input_data = flag (py_in ''unsigned'' (py_lower lib (signature input_data)))"

definition signature_group :: "pylib \<Rightarrow> ArtworkInput \<Rightarrow> row" where
  "signature_group lib input_data =
     [(''has_hand_signed'', I (has_hand_signed lib input_data)),
      (''has_plate_signed'', I (has_plate_signed lib input_data)),
      (''has_unsigned'', I (has_unsigned lib input_data))]"

definition has_etching :: "pylib \<Rightarrow> ArtworkInput \<Rightarrow> int" where
  "has_etching lib input_data = flag (py_in ''etching'' (py_lower lib (technique input_data)))"

definition has_lithograph :: "pylib \<Rightarrow> ArtworkInput \<Rightarrow> int" where
  "has_lithograph lib input_data = flag (py_in ''lithograph'' (py_lower lib (technique input_data)))"

definition has_woodcut :: "pylib \<Rightarrow> ArtworkInput \<Rightarrow> int" where
  "has_woodcut lib input_data = flag (py_in ''woodcut'' (py_lower lib (technique input_data)))"

definition has_screenprint :: "pylib \<Rightarrow> ArtworkInput \<Rightarrow> int" where
  "has_screenprint lib input_data = flag (py_in ''screenprint'' (py_lower lib (technique input_data)))"

definition technique_group :: "pylib \<Rightarrow> ArtworkInput \<Rightarrow> row" where
  "technique_group lib input_data =
     [(''has_etching'', I (has_etching lib input_data)),
      (''has_lithograph'', I (has_lithograph lib input_data)),
      (''has_woodcut'', I (has_woodcut lib input_data)),
      (''has_screenprint'', I (has_screenprint lib input_data))]"

definition has_limited_edition :: "pylib \<Rightarrow> ArtworkInput \<Rightarrow> int" where
  "has_limited_edition lib input_data =
     flag (py_in ''limited'' (py_lower lib (edition_type input_data)))"

definition binary_edition_group :: "pylib \<Rightarrow> ArtworkInput \<Rightarrow> row" where
  "binary_edition_group lib input_data =
     [(''has_limited_edition'', I (has_limited_edition lib input_data)),
      (''has_certificate'', I (flag (has_certificate input_data))),
      (''has_frame'', I (flag (has_frame input_data))),
      (''has_damage'', I (flag (has_damage input_data))),
      (''has_edition'', I (flag (has_edition input_data)))]"

text \<open>
  \<open>image_features\<close> is an optional dict; it is truthy when it is given and not empty,
  and reading a key it lacks raises \<open>KeyError\<close>.
\<close>

definition dict_get :: "('k \<times> 'v) list \<Rightarrow> 'k \<Rightarrow> exn + 'v" where
  "dict_get d k = (case map_of d k of Some v \<Rightarrow> Inr v | None \<Rightarrow> Inl KeyError)"

definition image_group :: "ArtworkInput \<Rightarrow> row option \<Rightarrow> exn + row" where
  "image_group input_data image_features =
     (if image_features \<noteq> None \<and> image_features \<noteq> Some []
      then (case dict_get (the image_features) ''colorfulness_score'' of
              Inl e \<Rightarrow> Inl e
            | Inr c \<Rightarrow>
               (case dict_get (the image_features) ''svd_entropy'' of
                  Inl e \<Rightarrow> Inl e
                | Inr e \<Rightarrow> Inr [(''colorfulness_score'', c), (''svd_entropy'', e)]))
      else Inr [(''colorfulness_score'', F (or_zero (colorfulness_score input_data))),
                (''svd_entropy'', F (or_zero (svd_entropy input_data)))])"

definition py_div :: "real \<Rightarrow> real \<Rightarrow> exn + real" where
  "py_div a b = (if b = 0 then Inl ZeroDivisionError else Inr (a / b))"

definition dimension_group :: "ArtworkInput \<Rightarrow> exn + row" where
  "dimension_group input_data =
     (let w = width input_data; h = height input_data; area = w * h in
      case py_div w (h + 0.00000001) of
        Inl e \<Rightarrow> Inl e
      | Inr aspect_ratio \<Rightarrow>
         (case py_div area (w + 0.00000001) of
            Inl e \<Rightarrow> Inl e
          | Inr area_per_width \<Rightarrow>
             (case py_div area (h + 0.00000001) of
                Inl e \<Rightarrow> Inl e
              | Inr area_per_height \<Rightarrow>
                 Inr [(''aspect_ratio'', F aspect_ratio),
                      (''log_area'', np_log1p area),
                      (''log_width'', np_log1p w),
                      (''log_height'', np_log1p h),
                      (''area_per_width'', F area_per_width),
                      (''area_per_height'', F area_per_height)])))"

definition size_group :: "ArtworkInput \<Rightarrow> row" where
  "size_group input_data =
     (let area = width input_data * height input_data in
      [(''size_category'',
          S (if area \<le> 100 then ''tiny''
             else if area \<le> 1000 then ''small''
             else if area \<le> 5000 then ''medium''
             else ''large''))])"

definition age_group :: "ArtworkInput \<Rightarrow> exn + row" where
  "age_group input_data =
     (let age = 2024 - year input_data in
      case np_log1p_int (max 0 age) of
        Inl e \<Rightarrow> Inl e
      | Inr log_age \<Rightarrow>
          Inr [(''log_age'', log_age),
               (''is_antique'', I (flag (age \<ge> 100))),
               (''is_vintage'', I (flag (20 \<le> age \<and> age < 100))),
               (''is_modern'', I (flag (age < 20)))])"

definition year_group :: "ArtworkInput \<Rightarrow> row" where
  "year_group input_data =
     (let y = year input_data in
      [(''year_category'',
          S (if y < 1900 then ''pre_1900''
             else if y < 1950 then ''early_1900s''
             else if y < 1980 then ''mid_1900s''
             else if y < 2000 then ''late_1900s''
             else ''modern''))])"

definition artist_group :: "artist_data \<Rightarrow> exn + row" where
  "artist_group artist_data =
     (let freq = frequency artist_data in
      case np_log1p_int freq of
        Inl e \<Rightarrow> Inl e
      | Inr log_artist_frequency \<Rightarrow>
          (if freq + 1 = 0 then Inl ZeroDivisionError
           else Inr [(''log_artist_frequency'', log_artist_frequency),
                     (''artist_rarity'', F (1 / real_of_int (freq + 1))),
                     (''is_rare_artist'', I (flag (freq \<le> 5))),
                     (''is_popular_artist'', I (flag (freq \<ge> 50))),
                     (''is_very_popular_artist'', I (flag (freq \<ge> 100))),
                     (''artist_frequency'', I freq)]))"

definition technique_count :: "pylib \<Rightarrow> ArtworkInput \<Rightarrow> int" where
  "technique_count lib input_data =
     has_etching lib input_data + has_lithograph lib input_data
       + has_woodcut lib input_data + has_screenprint lib input_data"

definition complexity_group :: "pylib \<Rightarrow> ArtworkInput \<Rightarrow> row" where
  "complexity_group lib input_data =
     [(''technique_count'', I (technique_count lib input_data)),
      (''technique_score'',
         I (has_etching lib input_data * 2 + has_lithograph lib input_data * 2
              + has_woodcut lib input_data * 3 + has_screenprint lib input_data * 1)),
      (''has_multiple_techniques'', I (flag (technique_count lib input_data > 1)))]"

definition any_signature_group :: "pylib \<Rightarrow> ArtworkInput \<Rightarrow> row" where
  "any_signature_group lib input_data =
     [(''has_any_signature'',
         I (flag (has_hand_signed lib input_data \<noteq> 0 \<or> has_plate_signed lib input_data \<noteq> 0)))]"

definition object_group :: row where
  "object_group =
     [(''object_frequency'', F 100.0), (''is_rare_object'', I 0), (''is_common_object'', I 1)]"

definition composite_group :: "pylib \<Rightarrow> ArtworkInput \<Rightarrow> row" where
  "composite_group lib input_data =
     [(''edition_features'',
         I (flag (has_edition input_data) + has_limited_edition lib input_data
              + flag (has_certificate input_data))),
      (''physical_features'',
         I (flag (has_frame input_data) + flag (has_certificate input_data)
              - flag (has_damage input_data)))]"

definition interaction_group :: "pylib \<Rightarrow> ArtworkInput \<Rightarrow> artist_data \<Rightarrow> row" where
  "interaction_group lib input_data artist_data =
     [(''size_artist_interaction'',
         F (width input_data * height input_data * real_of_int (frequency artist_data))),
      (''technique_artist_interaction'',
         I (technique_count lib input_data * frequency artist_data))]"

definition title_group :: "pylib \<Rightarrow> ArtworkInput \<Rightarrow> row" where
  "title_group lib input_data =
     [(''title_word_count'',
         I (if title input_data \<noteq> None \<and> the (title input_data) \<noteq> []
               \<and> py_strip lib (the (title input_data)) \<noteq> []
               \<and> py_strip lib (the (title input_data)) \<noteq> ''Untitled''
            then int (length (py_split lib (py_strip lib (the (title input_data)))))
            else if title_word_count input_data \<noteq> None
            then the (title_word_count input_data)
            else 3))]"

definition market_group :: "pylib \<Rightarrow> database \<Rightarrow> ArtworkInput \<Rightarrow> artist_data \<Rightarrow> row" where
  "market_group lib db input_data artist_data =
     (let tech_artist_data =
            get_tech_artist_median lib db (technique input_data) (artist input_data);
          tech_artist_median = ta_median_price tech_artist_data;
          artist_median = median_price artist_data
      in [(''price_vs_tech_artist_median'',
             F (if tech_artist_median > 0 \<and> artist_median > 0
                then tech_artist_median / artist_median
                else 1.0))])"

text \<open>
  The dict \<open>features\<close> as it stands at line 418. \<open>app_state.db_manager\<close> is \<open>None\<close>
  when the database could not be opened; calling a method on it raises
  \<open>AttributeError\<close>. Every key is assigned once, so the dict lists the groups in order.
\<close>

definition compute_features ::
  "pylib \<Rightarrow> database option \<Rightarrow> ArtworkInput \<Rightarrow> row option \<Rightarrow> exn + row" where
  "compute_features lib db_manager input_data image_features =
     (case db_manager of
        None \<Rightarrow> Inl AttributeError
      | Some db \<Rightarrow>
         (let artist_data = get_artist_data lib db (artist input_data) in
          case image_group input_data image_features of
            Inl e \<Rightarrow> Inl e
          | Inr image_rows \<Rightarrow>
             (case dimension_group input_data of
                Inl e \<Rightarrow> Inl e
              | Inr dimension_rows \<Rightarrow>
                 (case age_group input_data of
                    Inl e \<Rightarrow> Inl e
                  | Inr age_rows \<Rightarrow>
                     (case artist_group artist_data of
                        Inl e \<Rightarrow> Inl e
                      | Inr artist_rows \<Rightarrow>
                         Inr (categorical_group lib input_data @ edition_group lib input_data
                              @ numeric_group lib input_data @ signature_group lib input_data
                              @ technique_group lib input_data
                              @ binary_edition_group lib input_data
                              @ image_rows @ dimension_rows @ size_group input_data
                              @ age_rows @ year_group input_data @ artist_rows
                              @ complexity_group lib input_data
                              @ any_signature_group lib input_data
                              @ object_group @ composite_group lib input_data
                              @ interaction_group lib input_data artist_data
                              @ title_group lib input_data
                              @ market_group lib db input_data artist_data))))))"

text \<open>The keys of \<open>features\<close>, in the order of their assignments.\<close>

definition computed_names :: "string list" where
  "computed_names =
     [''OBJECT'', ''ARTIST'', ''EXPERT'', ''TECHNIQUE_SIMPLE'', ''SIGNATURE_SIMPLE'',
      ''CONDITION_SIMPLE'', ''edition_type'', ''EDITION_TYPE'', ''width'', ''height'', ''area'',
      ''EXPERT_RAW'', ''auction_year'', ''has_hand_signed'', ''has_plate_signed'',
      ''has_unsigned'', ''has_etching'', ''has_lithograph'', ''has_woodcut'',
      ''has_screenprint'', ''has_limited_edition'', ''has_certificate'', ''has_frame'',
      ''has_damage'', ''has_edition'', ''colorfulness_score'', ''svd_entropy'',
      ''aspect_ratio'', ''log_area'', ''log_width'', ''log_height'', ''area_per_width'',
      ''area_per_height'', ''size_category'', ''log_age'', ''is_antique'', ''is_vintage'',
      ''is_modern'', ''year_category'', ''log_artist_frequency'', ''artist_rarity'',
      ''is_rare_artist'', ''is_popular_artist'', ''is_very_popular_artist'',
      ''artist_frequency'', ''technique_count'', ''technique_score'',
      ''has_multiple_techniques'', ''has_any_signature'', ''object_frequency'',
      ''is_rare_object'', ''is_common_object'', ''edition_features'', ''physical_features'',
      ''size_artist_interaction'', ''technique_artist_interaction'', ''title_word_count'',
      ''price_vs_tech_artist_median'']"

subsection \<open>Schema alignment and type coercion (lines 420 to 453)\<close>

text \<open>
  \<open>feature_info\<close> is the dict read from \<open>feature_info.json\<close> (or built from the model):
  a field is \<open>None\<close> when the dict has no such key, and \<open>other_keys\<close> names its further
  keys (\<open>model_type\<close>, \<open>r2_score\<close> and so on). A dict is truthy when it has a key.
\<close>

record feature_info =
  feature_names :: "string list option"
  categorical_indices :: "int list option"
  n_features :: "int option"
  other_keys :: "string list"

definition dict_truthy :: "feature_info \<Rightarrow> bool" where
  "dict_truthy fi =
     (feature_names fi \<noteq> None \<or> categorical_indices fi \<noteq> None \<or> n_features fi \<noteq> None
      \<or> other_keys fi \<noteq> [])"

definition digit_char :: "nat \<Rightarrow> char" where
  "digit_char d = ''0123456789'' ! d"

fun show_nat :: "nat \<Rightarrow> string" where
  "show_nat n = (if n < 10 then [digit_char n] else show_nat (n div 10) @ [digit_char (n mod 10)])"

declare show_nat.simps [simp del]

definition show_int :: "int \<Rightarrow> string" where
  "show_int i = (if i < 0 then CHR ''-'' # show_nat (nat (- i)) else show_nat (nat i))"

text \<open>
  \<open>str(v)\<close>, as \<open>astype(str)\<close> applies it: a whole float below \<open>1e16\<close> prints as its
  integer part followed by \<open>.0\<close>.
\<close>

definition py_str :: "pylib \<Rightarrow> pyval \<Rightarrow> string" where
  "py_str lib v =
     (case v of
        S s \<Rightarrow> s
      | I i \<Rightarrow> show_int i
      | F x \<Rightarrow>
          (if x = of_int \<lfloor>x\<rfloor> \<and> \<bar>x\<bar> < 10 ^ 16 then show_int \<lfloor>x\<rfloor> @ ''.0''
           else float_repr lib x)
      | FNaN \<Rightarrow> ''nan''
      | FNegInf \<Rightarrow> ''-inf'')"

text \<open>\<open>d[k] = v\<close> on a dict: a present key keeps its place, a new key goes last.\<close>

fun dict_set :: "('k \<times> 'v) list \<Rightarrow> 'k \<Rightarrow> 'v \<Rightarrow> ('k \<times> 'v) list" where
  "dict_set [] k v = [(k, v)]"
| "dict_set ((k', v') # kvs) k v =
     (if k' = k then (k, v) # kvs else (k', v') # dict_set kvs k v)"

text \<open>Lines 428 to 436: one pass of the loop over \<open>expected_features\<close>.\<close>

definition fill_feature :: "row \<Rightarrow> string \<Rightarrow> pyval" where
  "fill_feature features feature_name =
     (case map_of features feature_name of
        Some v \<Rightarrow> v
      | None \<Rightarrow>
          (if feature_name \<in> set [''size_category'', ''year_category''] then S ''unknown''
           else F 0.0))"

definition align_features :: "row \<Rightarrow> string list \<Rightarrow> row" where
  "align_features features expected_features =
     fold (\<lambda>feature_name ordered_features.
             dict_set ordered_features feature_name (fill_feature features feature_name))
          expected_features []"

text \<open>\<open>xs[i]\<close>: a negative index counts from the end, one out of range raises.\<close>

definition py_index :: "'a list \<Rightarrow> int \<Rightarrow> exn + nat" where
  "py_index xs i =
     (if 0 \<le> i \<and> i < int (length xs) then Inr (nat i)
      else if i < 0 \<and> - int (length xs) \<le> i then Inr (nat (int (length xs) + i))
      else Inl IndexError)"

text \<open>Lines 443 to 446: the columns at the categorical indices become text.\<close>

fun categorical_to_str :: "pylib \<Rightarrow> row \<Rightarrow> int list \<Rightarrow> exn + row" where
  "categorical_to_str lib df [] = Inr df"
| "categorical_to_str lib df (idx # rest) =
     (if idx < int (length df)
      then (case py_index df idx of
              Inl e \<Rightarrow> Inl e
            | Inr j \<Rightarrow>
                categorical_to_str lib
                  (df[j := (fst (df ! j), S (py_str lib (snd (df ! j))))]) rest)
      else categorical_to_str lib df rest)"

text \<open>\<open>pd.to_numeric(column, errors='coerce').fillna(0.0)\<close> on a one-row column.\<close>

definition to_numeric_fillna :: "pylib \<Rightarrow> pyval \<Rightarrow> pyval" where
  "to_numeric_fillna lib v =
     (case v of
        S s \<Rightarrow> (case to_numeric_str lib s of
                  None \<Rightarrow> F 0.0
                | Some FNaN \<Rightarrow> F 0.0
                | Some n \<Rightarrow> n)
      | FNaN \<Rightarrow> F 0.0
      | _ \<Rightarrow> v)"

fun index_all :: "'a list \<Rightarrow> int list \<Rightarrow> exn + nat list" where
  "index_all xs [] = Inr []"
| "index_all xs (i # is) =
     (case py_index xs i of
        Inl e \<Rightarrow> Inl e
      | Inr j \<Rightarrow> (case index_all xs is of Inl e \<Rightarrow> Inl e | Inr js \<Rightarrow> Inr (j # js)))"

text \<open>
  Lines 449 to 451. The list of categorical column names is built afresh for every column,
  without the range guard of the loop before: with at least one column, an index out of
  range raises \<open>IndexError\<close>.
\<close>

definition convert_numeric :: "pylib \<Rightarrow> int list \<Rightarrow> row \<Rightarrow> exn + row" where
  "convert_numeric lib cat_indices df =
     (if df = [] then Inr df
      else (case index_all df cat_indices of
              Inl e \<Rightarrow> Inl e
            | Inr js \<Rightarrow>
                Inr (map (\<lambda>(col, v).
                            if col \<in> set (map (\<lambda>j. fst (df ! j)) js) then (col, v)
                            else (col, to_numeric_fillna lib v))
                         df)))"

subsection \<open>Application state and the builder\<close>

text \<open>
  \<open>model\<close> is \<open>app_state.model.predict(df)[0]\<close>: the trained model as a function from the
  one-row frame to its output, or to the exception it raises.
\<close>

record app_state =
  model :: "(row \<Rightarrow> exn + real) option"
  model_loaded :: bool
  feature_info :: "feature_info option"
  db_manager :: "database option"

definition expected_features_of :: "feature_info option \<Rightarrow> string list option" where
  "expected_features_of info =
     (case info of
        None \<Rightarrow> None
      | Some fi \<Rightarrow> (if dict_truthy fi then feature_names fi else None))"

definition categorical_indices_of :: "feature_info option \<Rightarrow> int list" where
  "categorical_indices_of info =
     (case info of
        None \<Rightarrow> []
      | Some fi \<Rightarrow>
          (if dict_truthy fi
           then (case categorical_indices fi of Some c \<Rightarrow> c | None \<Rightarrow> [])
           else []))"

text \<open>The body of the \<open>try\<close> block of \<open>create_all_57_features\<close>.\<close>

definition build_frame ::
  "pylib \<Rightarrow> app_state \<Rightarrow> ArtworkInput \<Rightarrow> row option \<Rightarrow> exn + row" where
  "build_frame lib st input_data image_features =
     (case compute_features lib (db_manager st) input_data image_features of
        Inl e \<Rightarrow> Inl e
      | Inr features \<Rightarrow>
          (let df = (case expected_features_of (feature_info st) of
                       Some expected_features \<Rightarrow> align_features features expected_features
                     | None \<Rightarrow> features);
               cat_indices = categorical_indices_of (feature_info st)
           in case categorical_to_str lib df cat_indices of
                Inl e \<Rightarrow> Inl e
              | Inr df \<Rightarrow> convert_numeric lib cat_indices df))"

text \<open>Any exception of the body becomes \<open>HTTPException(status_code=500)\<close>.\<close>

definition create_all_57_features ::
  "pylib \<Rightarrow> app_state \<Rightarrow> ArtworkInput \<Rightarrow> row option \<Rightarrow> http_error + row" where
  "create_all_57_features lib st input_data image_features =
     (case build_frame lib st input_data image_features of
        Inl e \<Rightarrow> Inl (HTTPException 500)
      | Inr df \<Rightarrow> Inr df)"

subsection \<open>Price rescaling, confidence and popularity (predict\_price, lines 612 to 661)\<close>

definition np_expm1 :: "real \<Rightarrow> real" where
  "np_expm1 x = exp x - 1"

text \<open>Lines 625 to 638: the tier chosen by the artist's frequency.\<close>

definition artist_scaling :: "int \<Rightarrow> real \<Rightarrow> real \<Rightarrow> real" where
  "artist_scaling freq median price_pred =
     (if freq \<ge> 100 then max (price_pred * 20) (median * 0.1)
      else if freq \<ge> 50 then max (price_pred * 15) (median * 0.05)
      else if freq \<ge> 20 then max (price_pred * 10) (median * 0.02)
      else max (price_pred * 3) 10)"

text \<open>Lines 614 to 642: from the model's output to the final price.\<close>

definition rescale_price :: "real \<Rightarrow> artist_data \<Rightarrow> real" where
  "rescale_price log_price_pred artist_data =
     (let price_pred = np_expm1 log_price_pred;
          price_pred =
            artist_scaling (frequency artist_data) (median_price artist_data) price_pred;
          price_pred = max price_pred 10.0;
          price_pred = min price_pred 1000000.0
      in price_pred)"

definition confidence_of :: "int \<Rightarrow> string" where
  "confidence_of freq =
     (if freq \<ge> 20 then ''HIGH'' else if freq \<ge> 5 then ''MEDIUM'' else ''LOW'')"

definition popularity_of :: "int \<Rightarrow> string" where
  "popularity_of freq =
     (if freq \<ge> 50 then ''VERY_POPULAR''
      else if freq \<ge> 10 then ''POPULAR''
      else if freq \<ge> 5 then ''KNOWN''
      else ''UNKNOWN'')"

subsection \<open>The endpoints \<open>/predict\<close> and \<open>/health\<close>\<close>

record PredictionResponse =
  predicted_price :: real
  log_price :: real
  confidence :: string
  artist_popularity :: string
  image_quality :: string
  features_used :: int
  model_type :: string

text \<open>\<open>round(x, n)\<close> on the idealised float: to \<open>n\<close> decimals, a tie to the even digit.\<close>

definition py_round :: "real \<Rightarrow> nat \<Rightarrow> real" where
  "py_round x n =
     (let y = x * 10 ^ n; f = \<lfloor>y\<rfloor>; d = y - of_int f
      in (if d < 1 / 2 then of_int f
          else if d > 1 / 2 then of_int (f + 1)
          else if even f then of_int f
          else of_int (f + 1)) / 10 ^ n)"

text \<open>\<open>app_state.feature_info['n_features'] if app_state.feature_info else 0\<close>.\<close>

definition features_count_of :: "feature_info option \<Rightarrow> exn + int" where
  "features_count_of info =
     (case info of
        None \<Rightarrow> Inr 0
      | Some fi \<Rightarrow>
          (if dict_truthy fi
           then (case n_features fi of Some n \<Rightarrow> Inr n | None \<Rightarrow> Inl KeyError)
           else Inr 0))"

text \<open>
  The body of the \<open>try\<close> block of \<open>predict_price\<close>. The \<open>HTTPException\<close> of the builder
  is an exception like any other here, so the outcome keeps only that one was raised.
\<close>

definition predict_body ::
  "pylib \<Rightarrow> app_state \<Rightarrow> ArtworkInput \<Rightarrow> exn + PredictionResponse" where
  "predict_body lib st artwork =
     (case create_all_57_features lib st artwork None of
        Inl e \<Rightarrow> Inl RaisedHTTPException
      | Inr features_df \<Rightarrow>
         (case model st of
            None \<Rightarrow> Inl AttributeError
          | Some predict \<Rightarrow>
             (case predict features_df of
                Inl e \<Rightarrow> Inl e
              | Inr log_price_pred \<Rightarrow>
                 (case db_manager st of
                    None \<Rightarrow> Inl AttributeError
                  | Some db \<Rightarrow>
                     (let artist_data = get_artist_data lib db (artist artwork);
                          freq = frequency artist_data;
                          price_pred = rescale_price log_price_pred artist_data
                      in case features_count_of (feature_info st) of
                           Inl e \<Rightarrow> Inl e
                         | Inr n \<Rightarrow>
                             Inr \<lparr>predicted_price = py_round price_pred 2,
                                  log_price = py_round log_price_pred 4,
                                  confidence = confidence_of freq,
                                  artist_popularity = popularity_of freq,
                                  image_quality = ''Not provided'',
                                  features_used = n,
                                  model_type = ''CatBoost_57_Features''\<rparr>)))))"

definition predict_price ::
  "pylib \<Rightarrow> app_state \<Rightarrow> ArtworkInput \<Rightarrow> http_error + PredictionResponse" where
  "predict_price lib st artwork =
     (if \<not> model_loaded st then Inl (HTTPException 503)
      else (case predict_body lib st artwork of
              Inl e \<Rightarrow> Inl (HTTPException 500)
            | Inr response \<Rightarrow> Inr response))"

text \<open>
  The JSON body of \<open>POST /predict\<close>, well typed: a field is \<open>None\<close> when the body lacks
  it. \<open>title\<close> may also be sent as \<open>null\<close> (\<open>Some None\<close>); for the other optional fields
  \<open>null\<close> and absence both give the default \<open>None\<close>. The framework builds the
  \<open>ArtworkInput\<close> from the declarations of the class and answers 422 when that fails:
  here, when a required field is missing.
\<close>

record artwork_body =
  body_artist :: "string option"
  body_object_type :: "string option"
  body_technique :: "string option"
  body_signature :: "string option"
  body_condition :: "string option"
  body_edition_type :: "string option"
  body_year :: "int option"
  body_width :: "real option"
  body_height :: "real option"
  body_has_edition :: "bool option"
  body_has_certificate :: "bool option"
  body_has_frame :: "bool option"
  body_has_damage :: "bool option"
  body_expert :: "string option"
  body_colorfulness_score :: "real option"
  body_svd_entropy :: "real option"
  body_title :: "string option option"
  body_title_word_count :: "int option"

fun or_default :: "'a option \<Rightarrow> 'a \<Rightarrow> 'a" where
  "or_default None d = d"
| "or_default (Some v) d = v"

definition validate_artwork :: "artwork_body \<Rightarrow> http_error + ArtworkInput" where
  "validate_artwork b =
     (if body_artist b = None \<or> body_object_type b = None \<or> body_technique b = None
         \<or> body_signature b = None \<or> body_condition b = None \<or> body_edition_type b = None
         \<or> body_year b = None \<or> body_width b = None \<or> body_height b = None
      then Inl (HTTPException 422)
      else Inr \<lparr>artist = the (body_artist b),
                object_type = the (body_object_type b),
                technique = the (body_technique b),
                signature = the (body_signature b),
                condition = the (body_condition b),
                edition_type = the (body_edition_type b),
                year = the (body_year b),
                width = the (body_width b),
                height = the (body_height b),
                has_edition = or_default (body_has_edition b) False,
                has_certificate = or_default (body_has_certificate b) False,
                has_frame = or_default (body_has_frame b) False,
                has_damage = or_default (body_has_damage b) False,
                expert = or_default (body_expert b) ''Unknown'',
                colorfulness_score = body_colorfulness_score b,
                svd_entropy = body_svd_entropy b,
                title = or_default (body_title b) (Some ''Untitled''),
                title_word_count = body_title_word_count b\<rparr>)"

definition post_predict ::
  "pylib \<Rightarrow> app_state \<Rightarrow> artwork_body \<Rightarrow> http_error + PredictionResponse" where
  "post_predict lib st b =
     (case validate_artwork b of
        Inl e \<Rightarrow> Inl e
      | Inr artwork \<Rightarrow> predict_price lib st artwork)"

datatype jval = JStr string | JBool bool | JInt int | JReal real

definition health_check :: "bool \<Rightarrow> app_state \<Rightarrow> exn + (string \<times> jval) list" where
  "health_check image_processing_available st =
     (case features_count_of (feature_info st) of
        Inl e \<Rightarrow> Inl e
      | Inr n \<Rightarrow>
          Inr [(''status'', JStr ''healthy''),
               (''model_loaded'', JBool (model_loaded st)),
               (''features_count'', JInt n),
               (''image_processing'', JBool image_processing_available)])"

subsection \<open>Image features (lines 202 to 257) and \<open>/analyze-image\<close>\<close>

text \<open>
  A colour image is the array OpenCV decodes: rows of pixels, each three \<open>uint8\<close>
  channels in the order blue, green, red. A file system is a map from paths to bytes.
  Decoding, resizing and the singular values are the libraries' (\<open>None\<close> from a decoder:
  the bytes are no image).
\<close>

type_synonym pixel = "8 word \<times> 8 word \<times> 8 word"
type_synonym image = "pixel list list"
type_synonym gray_image = "8 word list list"
type_synonym files = "string \<rightharpoonup> 8 word list"

record image_lib =
  decode_color :: "8 word list \<Rightarrow> image option"
  decode_gray :: "8 word list \<Rightarrow> gray_image option"
  cv2_resize :: "gray_image \<Rightarrow> nat \<times> nat \<Rightarrow> exn + gray_image"
  linalg_svd :: "real list list \<Rightarrow> exn + real list"

text \<open>
  \<open>cv2.imread(path, flag)\<close>: a \<open>TypeError\<close> when the path is \<open>None\<close>, the value \<open>None\<close>
  when there is no such file or it does not decode, the array otherwise.
\<close>

definition imread :: "(8 word list \<Rightarrow> 'a option) \<Rightarrow> files \<Rightarrow> string option \<Rightarrow> exn + 'a option" where
  "imread decode fs image_path =
     (case image_path of
        None \<Rightarrow> Inl TypeError
      | Some p \<Rightarrow> (case fs p of None \<Rightarrow> Inr None | Some bytes \<Rightarrow> Inr (decode bytes)))"

text \<open>\<open>cv2.cvtColor(image, cv2.COLOR_BGR2RGB)\<close> swaps the outer channels; it raises on an
  array without pixels.\<close>

definition cvtColor_BGR2RGB :: "image \<Rightarrow> exn + image" where
  "cvtColor_BGR2RGB img =
     (if concat img = [] then Inl LibraryError
      else Inr (map (map (\<lambda>(b, g, r). (r, g, b))) img))"

definition np_mean :: "real list \<Rightarrow> real" where
  "np_mean xs = sum_list xs / real (length xs)"

definition np_std :: "real list \<Rightarrow> real" where
  "np_std xs = sqrt (np_mean (map (\<lambda>x. \<bar>x - np_mean xs\<bar> ^ 2) xs))"

text \<open>Lines 216 to 226, on the pixels of the RGB array.\<close>

definition colorfulness_of :: "image \<Rightarrow> real" where
  "colorfulness_of image_rgb =
     (let px = concat image_rgb;
          R = map (\<lambda>(r, g, b). real (unat r)) px;
          G = map (\<lambda>(r, g, b). real (unat g)) px;
          B = map (\<lambda>(r, g, b). real (unat b)) px;
          rg = map2 (\<lambda>r g. r - g) R G;
          yb = map2 (\<lambda>(r, g) b. 0.5 * (r + g) - b) (zip R G) B;
          std_rg = np_std rg;
          std_yb = np_std yb;
          mean_rg = np_mean rg;
          mean_yb = np_mean yb
      in sqrt (std_rg ^ 2 + std_yb ^ 2) + 0.3 * sqrt (mean_rg ^ 2 + mean_yb ^ 2))"

definition colorfulness_body :: "image_lib \<Rightarrow> files \<Rightarrow> string option \<Rightarrow> exn + pyval" where
  "colorfulness_body lib fs image_path =
     (case imread (decode_color lib) fs image_path of
        Inl e \<Rightarrow> Inl e
      | Inr None \<Rightarrow> Inr (F 0.0)
      | Inr (Some img) \<Rightarrow>
          (case cvtColor_BGR2RGB img of
             Inl e \<Rightarrow> Inl e
           | Inr image_rgb \<Rightarrow> Inr (F (colorfulness_of image_rgb))))"

text \<open>
  The function itself: the first argument is the flag \<open>IMAGE_PROCESSING_AVAILABLE\<close>, and
  \<open>except Exception\<close> turns every exception of the body into \<open>0.0\<close>.
\<close>

definition calculate_colorfulness ::
  "bool \<Rightarrow> image_lib \<Rightarrow> files \<Rightarrow> string option \<Rightarrow> exn + pyval" where
  "calculate_colorfulness image_processing_available lib fs image_path =
     (if \<not> image_processing_available then Inr (F 0.0)
      else (case colorfulness_body lib fs image_path of
              Inl e \<Rightarrow> Inr (F 0.0)
            | Inr c \<Rightarrow> Inr c))"

text \<open>
  Lines 249 to 251 on the singular values \<open>s\<close>. The numeral \<open>0.0000000001\<close> is the source's
  \<open>1e-10\<close>. numpy divides by a zero sum without raising: \<open>0/0\<close> is not a number and fails
  the comparison, a positive value over zero is infinite, passes it and makes the sum
  infinite.
\<close>

definition spectrum_entropy :: "real list \<Rightarrow> pyval" where
  "spectrum_entropy s =
     (let total = sum_list s in
      if total = 0 then (if list_all (\<lambda>x. x = 0) s then F 0.0 else FNegInf)
      else (let s_normalized = map (\<lambda>x. x / total) s;
                s_normalized = filter (\<lambda>p. p > 0.0000000001) s_normalized
            in F (- sum_list (map (\<lambda>p. p * log 2 p) s_normalized))))"

definition svd_entropy_body :: "image_lib \<Rightarrow> files \<Rightarrow> string option \<Rightarrow> exn + pyval" where
  "svd_entropy_body lib fs image_path =
     (case imread (decode_gray lib) fs image_path of
        Inl e \<Rightarrow> Inl e
      | Inr None \<Rightarrow> Inr (F 0.0)
      | Inr (Some img) \<Rightarrow>
          (case cv2_resize lib img (64, 64) of
             Inl e \<Rightarrow> Inl e
           | Inr img \<Rightarrow>
               (case linalg_svd lib (map (map (\<lambda>p. real (unat p))) img) of
                  Inl e \<Rightarrow> Inl e
                | Inr s \<Rightarrow> Inr (spectrum_entropy s))))"

definition calculate_svd_entropy ::
  "bool \<Rightarrow> image_lib \<Rightarrow> files \<Rightarrow> string option \<Rightarrow> exn + pyval" where
  "calculate_svd_entropy image_processing_available lib fs image_path =
     (if \<not> image_processing_available then Inr (F 0.0)
      else (case svd_entropy_body lib fs image_path of
              Inl e \<Rightarrow> Inr (F 0.0)
            | Inr c \<Rightarrow> Inr c))"








subsection \<open>The formulas of the specification for the image features\<close>

text \<open>
  Written from section 4.2 of the specification, to be compared with the source's
  \<open>colorfulness_of\<close> and \<open>spectrum_entropy\<close>: on the red, green and blue values of all
  pixels, \<open>rg = R - G\<close> and \<open>yb = 0.5 (R + G) - B\<close>, and the colourfulness is
  \<open>sqrt(std(rg)\<^sup>2 + std(yb)\<^sup>2) + 0.3 sqrt(mean(rg)\<^sup>2 + mean(yb)\<^sup>2)\<close>; the singular values
  are normalised to sum 1, those not above \<open>1e-10\<close> are dropped, and the entropy is the
  Shannon entropy to base 2 of the rest.
\<close>

definition mean_spec :: "real list \<Rightarrow> real" where
  "mean_spec xs = (\<Sum>x\<leftarrow>xs. x) / real (length xs)"

definition std_spec :: "real list \<Rightarrow> real" where
  "std_spec xs = sqrt ((\<Sum>x\<leftarrow>xs. (x - mean_spec xs) ^ 2) / real (length xs))"

definition colorfulness_spec :: "(real \<times> real \<times> real) list \<Rightarrow> real" where
  "colorfulness_spec rgb =
     (let rg = map (\<lambda>(r, g, b). r - g) rgb;
          yb = map (\<lambda>(r, g, b). 0.5 * (r + g) - b) rgb
      in sqrt ((std_spec rg)\<^sup>2 + (std_spec yb)\<^sup>2)
           + 0.3 * sqrt ((mean_spec rg)\<^sup>2 + (mean_spec yb)\<^sup>2))"

definition entropy_spec :: "real list \<Rightarrow> real" where
  "entropy_spec s =
     (let p = map (\<lambda>x. x / sum_list s) s;
          kept = filter (\<lambda>q. q > 0.0000000001) p
      in - (\<Sum>q\<leftarrow>kept. q * log 2 q))"

text \<open>The red, green and blue value of a pixel of the decoded (blue, green, red) array.\<close>

definition rgb_of_bgr :: "pixel \<Rightarrow> real \<times> real \<times> real" where
  "rgb_of_bgr p = (case p of (b, g, r) \<Rightarrow> (real (unat r), real (unat g), real (unat b)))"

subsection \<open>Fixtures\<close>

text \<open>\<open>AppState.__init__\<close>: nothing is loaded.\<close>

definition initial_app_state :: app_state where
  "initial_app_state =
     \<lparr>model = None, model_loaded = False, feature_info = None, db_manager = None\<rparr>"

text \<open>
  The state after a startup that seeded an empty database and loaded a model and a
  schema; the model is a stand-in that gives \<open>answer\<close> for every frame.
\<close>

definition loaded_app_state :: "real \<Rightarrow> feature_info option \<Rightarrow> app_state" where
  "loaded_app_state answer info =
     \<lparr>model = Some (\<lambda>df. Inr answer), model_loaded = True, feature_info = info,
      db_manager = Some (init_database empty_database)\<rparr>"

text \<open>The request of tests/test\_backend.py and tests/test\_improved\_system.py.\<close>

definition picasso_body :: artwork_body where
  "picasso_body =
     \<lparr>body_artist = Some ''Pablo Picasso'', body_object_type = Some ''painting'',
      body_technique = Some ''oil on canvas'', body_signature = Some ''hand signed'',
      body_condition = Some ''excellent'', body_edition_type = Some ''unique'',
      body_year = Some 1907, body_width = Some 100.0, body_height = Some 80.0,
      body_has_edition = Some False, body_has_certificate = Some True,
      body_has_frame = Some True, body_has_damage = Some False,
      body_expert = Some ''Unknown'', body_colorfulness_score = None,
      body_svd_entropy = None, body_title = None, body_title_word_count = None\<rparr>"

definition picasso_artwork :: ArtworkInput where
  "picasso_artwork =
     \<lparr>artist = ''Pablo Picasso'', object_type = ''painting'', technique = ''oil on canvas'',
      signature = ''hand signed'', condition = ''excellent'', edition_type = ''unique'',
      year = 1907, width = 100.0, height = 80.0, has_edition = False,
      has_certificate = True, has_frame = True, has_damage = False, expert = ''Unknown'',
      colorfulness_score = None, svd_entropy = None, title = Some ''Untitled'',
      title_word_count = None\<rparr>"

text \<open>
  Stand-ins for the image libraries: every file decodes to the one-pixel image with
  blue 10, green 20, red 30 (grey 7), resizing returns the image as it is, and the
  singular values are 1 and 1. In \<open>blind_image_lib\<close> nothing decodes.
\<close>

definition example_image_lib :: image_lib where
  "example_image_lib =
     \<lparr>decode_color = (\<lambda>bytes. Some [[(10, 20, 30)]]),
      decode_gray = (\<lambda>bytes. Some [[7]]),
      cv2_resize = (\<lambda>img size. Inr img),
      linalg_svd = (\<lambda>m. Inr [1, 1])\<rparr>"

definition blind_image_lib :: image_lib where
  "blind_image_lib =
     \<lparr>decode_color = (\<lambda>bytes. None),
      decode_gray = (\<lambda>bytes. None),
      cv2_resize = (\<lambda>img size. Inr img),
      linalg_svd = (\<lambda>m. Inr [1, 1])\<rparr>"

text \<open>Stand-ins for Python's string methods, float printer and pandas' number parser.\<close>

definition example_pylib :: pylib where
  "example_pylib =
     \<lparr>str_lower = (\<lambda>s. s), str_strip = (\<lambda>s. s), str_split = (\<lambda>s. [s]),
      float_repr = (\<lambda>x. ''float''), to_numeric_str = (\<lambda>s. None)\<rparr>"

text \<open>The keys of the object an endpoint returns, \<open>None\<close> when it raised instead.\<close>

definition response_keys :: "'e + ('k \<times> 'v) list \<Rightarrow> 'k list option" where
  "response_keys r = (case r of Inl e \<Rightarrow> None | Inr d \<Rightarrow> Some (map fst d))"

section \<open>Properties\<close>

subsection \<open>Strings and the seeded store\<close>

lemma lower_char_idem: "lower_char (lower_char c) = lower_char c"
  by (simp add: lower_char_def)

lemma seeded_picasso:
  "artists (init_database empty_database) ''pablo picasso'' =
     Some \<lparr>frequency = 150, median_price = 50000, price_std = 25000\<rparr>"
  by (simp add: init_database_def empty_database_def insert_or_replace_def sample_artists_def)

lemma lower_Pablo_Picasso: "py_lower lib ''Pablo Picasso'' = ''pablo picasso''"
  by (simp add: py_lower_def is_ascii_def lower_char_def)

lemma get_picasso:
  "get_artist_data lib (init_database empty_database) ''Pablo Picasso'' =
     \<lparr>frequency = 150, median_price = 50000, price_std = 25000\<rparr>"
  by (simp add: get_artist_data_def lower_Pablo_Picasso seeded_picasso)

subsection \<open>The price rescaler\<close>

text \<open>
  Claim C1. With \<open>base_price = expm1(raw_log_price)\<close>, the rescaler applies exactly one
  tier, chosen by the artist's frequency from the highest threshold down
  (at least 100: \<open>max(base*20, median*0.10)\<close>; at least 50: \<open>max(base*15, median*0.05)\<close>;
  at least 20: \<open>max(base*10, median*0.02)\<close>; otherwise \<open>max(base*3, 10)\<close>), and clamps the
  result to the interval from 10 to 1000000. For frequency 150, median price 50000 and
  base price 100 the final price is 5000, also when the record is looked up under
  the name Pablo Picasso in the freshly seeded store.
\<close>

theorem rescale_price_tiers:
  "(frequency a \<ge> 100 \<longrightarrow>
      rescale_price raw a = min (max (max ((exp raw - 1) * 20) (median_price a * 0.10)) 10) 1000000)
   \<and> (50 \<le> frequency a \<and> frequency a < 100 \<longrightarrow>
      rescale_price raw a = min (max (max ((exp raw - 1) * 15) (median_price a * 0.05)) 10) 1000000)
   \<and> (20 \<le> frequency a \<and> frequency a < 50 \<longrightarrow>
      rescale_price raw a = min (max (max ((exp raw - 1) * 10) (median_price a * 0.02)) 10) 1000000)
   \<and> (frequency a < 20 \<longrightarrow>
      rescale_price raw a = min (max (max ((exp raw - 1) * 3) 10) 10) 1000000)
   \<and> 10 \<le> rescale_price raw a \<and> rescale_price raw a \<le> 1000000
   \<and> (exp raw - 1 = 100 \<and> frequency a = 150 \<and> median_price a = 50000 \<longrightarrow>
        rescale_price raw a = 5000)
   \<and> rescale_price (ln 101) (get_artist_data lib (init_database empty_database) ''Pablo Picasso'')
        = 5000"
  by (simp add: rescale_price_def artist_scaling_def np_expm1_def Let_def get_picasso)

theorem rescale_price_tiers_witness:
  "rescale_price (ln 101) \<lparr>frequency = 150, median_price = 50000, price_std = 25000\<rparr> = 5000
   \<and> rescale_price (ln 101) \<lparr>frequency = 80, median_price = 30000, price_std = 15000\<rparr> = 1500
   \<and> rescale_price (ln 101) \<lparr>frequency = 30, median_price = 1000, price_std = 10\<rparr> = 1000
   \<and> rescale_price (ln 51) \<lparr>frequency = 1, median_price = 500, price_std = 250\<rparr> = 150"
  using rescale_price_tiers [of "\<lparr>frequency = 150, median_price = 50000, price_std = 25000\<rparr>" "ln 101"]
    rescale_price_tiers [of "\<lparr>frequency = 80, median_price = 30000, price_std = 15000\<rparr>" "ln 101"]
    rescale_price_tiers [of "\<lparr>frequency = 30, median_price = 1000, price_std = 10\<rparr>" "ln 101"]
    rescale_price_tiers [of "\<lparr>frequency = 1, median_price = 500, price_std = 250\<rparr>" "ln 51"]
  by simp

text \<open>
  Claim C7. For a base price \<open>b\<close> and a median price \<open>m\<close> that are not negative, the tier
  of a frequency of at least 100 gives at least the price of the tier of a frequency
  from 50 to 99 at the same \<open>b\<close> and \<open>m\<close>: \<open>max(b*20, m*0.10) \<ge> max(b*15, m*0.05)\<close>.
\<close>

theorem tier_100_dominates_tier_50:
  assumes "0 \<le> b" and "0 \<le> m" and "100 \<le> f1" and "50 \<le> f2" and "f2 < 100"
  shows "artist_scaling f1 m b = max (b * 20) (m * 0.10)
         \<and> artist_scaling f2 m b = max (b * 15) (m * 0.05)
         \<and> artist_scaling f2 m b \<le> artist_scaling f1 m b"
  using assms by (auto simp: artist_scaling_def max_def)

theorem tier_100_dominates_tier_50_witness:
  "(0::real) \<le> 100 \<and> (0::real) \<le> 50000 \<and> (100::int) \<le> 150 \<and> (50::int) \<le> 80 \<and> (80::int) < 100
   \<and> artist_scaling 150 50000 100 = 5000 \<and> artist_scaling 80 50000 100 = 2500
   \<and> artist_scaling 80 50000 100 \<le> artist_scaling 150 50000 100"
  using tier_100_dominates_tier_50 [of 100 50000 150 80] by simp

subsection \<open>The reference store\<close>

text \<open>
  Claim C4 asks that two names that differ only in letter case or in leading and
  trailing white space get the same record, and that a name without a stored record
  gets the default record. On the code the part on white space fails:
  \<open>get_artist_data\<close> queries with \<open>artist_name.lower()\<close> and does not trim, while the
  builder trims the same name for its \<open>ARTIST\<close> entry. In the seeded store the names
  \<open>Pablo Picasso\<close> and \<open>PABLO PICASSO\<close> get the stored record and the unknown
  \<open>Jane Doe\<close> gets the default record, but \<open>Pablo Picasso\<close> followed by a blank gets
  the default record too, although the builder's \<open>ARTIST\<close> entry for it is
  \<open>pablo picasso\<close>.
\<close>

theorem lookup_skips_trim:
  "get_artist_data lib (init_database empty_database) ''Pablo Picasso''
     = \<lparr>frequency = 150, median_price = 50000, price_std = 25000\<rparr>
   \<and> get_artist_data lib (init_database empty_database) ''PABLO PICASSO''
     = \<lparr>frequency = 150, median_price = 50000, price_std = 25000\<rparr>
   \<and> get_artist_data lib (init_database empty_database) ''Jane Doe''
     = \<lparr>frequency = 1, median_price = 500.0, price_std = 250.0\<rparr>
   \<and> get_artist_data lib (init_database empty_database) ''Pablo Picasso ''
     = \<lparr>frequency = 1, median_price = 500.0, price_std = 250.0\<rparr>
   \<and> map_of (categorical_group lib (picasso_artwork\<lparr>artist := ''Pablo Picasso ''\<rparr>)) ''ARTIST''
     = Some (S ''pablo picasso'')"
proof -
  have l: "py_lower lib ''PABLO PICASSO'' = ''pablo picasso''"
    "py_lower lib ''Jane Doe'' = ''jane doe''"
    "py_lower lib ''Pablo Picasso '' = ''pablo picasso ''"
    by (simp_all add: py_lower_def is_ascii_def lower_char_def)
  have s: "py_strip lib ''pablo picasso '' = ''pablo picasso''"
    by (simp add: py_strip_def is_ascii_def is_space_def)
  have m: "artists (init_database empty_database) ''jane doe'' = None"
    "artists (init_database empty_database) ''pablo picasso '' = None"
    by (simp_all add: init_database_def empty_database_def insert_or_replace_def
        sample_artists_def)
  show ?thesis
    by (simp add: get_artist_data_def lower_Pablo_Picasso seeded_picasso l s m
        categorical_group_def)
qed

subsection \<open>The health endpoint\<close>

text \<open>
  Claim C9, as the code has it: when no schema is loaded, or the loaded schema is an
  empty dict, or it carries \<open>n_features\<close>, the response of \<open>GET /health\<close> is the object
  with exactly the keys \<open>status\<close>, \<open>model_loaded\<close>, \<open>features_count\<close> and
  \<open>image_processing\<close>, in which \<open>model_loaded\<close> is the state's flag and
  \<open>features_count\<close> is the schema's \<open>n_features\<close>, or 0 without a schema.
\<close>

theorem health_check_keys:
  "(feature_info st = None \<longrightarrow>
      health_check ipa st =
        Inr [(''status'', JStr ''healthy''), (''model_loaded'', JBool (model_loaded st)),
             (''features_count'', JInt 0), (''image_processing'', JBool ipa)])
   \<and> (feature_info st = Some fi \<and> \<not> dict_truthy fi \<longrightarrow>
      health_check ipa st =
        Inr [(''status'', JStr ''healthy''), (''model_loaded'', JBool (model_loaded st)),
             (''features_count'', JInt 0), (''image_processing'', JBool ipa)])
   \<and> (feature_info st = Some fi \<and> n_features fi = Some n \<longrightarrow>
      health_check ipa st =
        Inr [(''status'', JStr ''healthy''), (''model_loaded'', JBool (model_loaded st)),
             (''features_count'', JInt n), (''image_processing'', JBool ipa)])"
  by (auto simp: health_check_def features_count_of_def dict_truthy_def)

theorem health_check_keys_witness:
  "health_check True initial_app_state =
     Inr [(''status'', JStr ''healthy''), (''model_loaded'', JBool False),
          (''features_count'', JInt 0), (''image_processing'', JBool True)]
   \<and> health_check True
        (loaded_app_state 0
           (Some \<lparr>feature_names = None, categorical_indices = None, n_features = None,
                  other_keys = []\<rparr>)) =
     Inr [(''status'', JStr ''healthy''), (''model_loaded'', JBool True),
          (''features_count'', JInt 0), (''image_processing'', JBool True)]
   \<and> health_check False
        (loaded_app_state 0
           (Some \<lparr>feature_names = Some [''width''], categorical_indices = Some [],
                  n_features = Some 1, other_keys = []\<rparr>)) =
     Inr [(''status'', JStr ''healthy''), (''model_loaded'', JBool True),
          (''features_count'', JInt 1), (''image_processing'', JBool False)]"
  using health_check_keys [where st = initial_app_state and ipa = True]
    health_check_keys
      [where st = "loaded_app_state 0
             (Some \<lparr>feature_names = None, categorical_indices = None, n_features = None,
                    other_keys = []\<rparr>)"
         and fi = "\<lparr>feature_names = None, categorical_indices = None, n_features = None,
            other_keys = []\<rparr>" and ipa = True]
    health_check_keys
      [where st = "loaded_app_state 0
             (Some \<lparr>feature_names = Some [''width''], categorical_indices = Some [],
                    n_features = Some 1, other_keys = []\<rparr>)"
         and fi = "\<lparr>feature_names = Some [''width''], categorical_indices = Some [],
            n_features = Some 1, other_keys = []\<rparr>" and ipa = False and n = 1]
  by (simp add: initial_app_state_def loaded_app_state_def dict_truthy_def)

text \<open>
  Claim C9 as the specification states it fails: the fourth key of the response is
  \<open>image_processing\<close>, not \<open>image_processing_available\<close>.
\<close>

theorem health_keys_counterexample:
  "response_keys (health_check True initial_app_state)
     \<noteq> Some [''status'', ''model_loaded'', ''features_count'', ''image_processing_available'']"
  by (simp add: response_keys_def health_check_def features_count_of_def initial_app_state_def)

subsection \<open>The image feature extractors\<close>

lemma np_mean_spec: "np_mean xs = mean_spec xs"
  by (simp add: np_mean_def mean_spec_def)

lemma np_std_spec: "np_std xs = std_spec xs"
  by (simp add: np_std_def std_spec_def np_mean_spec mean_spec_def)

lemma colorfulness_of_spec:
  "colorfulness_of (map (map (\<lambda>(b, g, r). (r, g, b))) img)
     = colorfulness_spec (map rgb_of_bgr (concat img))"
proof -
  let ?px = "concat (map (map (\<lambda>(b, g, r). (r, g, b))) img) :: pixel list"
  have px: "?px = map (\<lambda>(b, g, r). (r, g, b)) (concat img)"
    by (simp add: map_concat)
  have rg: "map2 (\<lambda>r g. r - g) (map (\<lambda>(r, g, b). real (unat r)) ?px)
              (map (\<lambda>(r, g, b). real (unat g)) ?px)
            = map (\<lambda>(r, g, b). r - g) (map rgb_of_bgr (concat img))"
    unfolding px
    by (simp add: zip_map_map zip_same_conv_map rgb_of_bgr_def split_def)
  have yb: "map2 (\<lambda>(r, g) b. 0.5 * (r + g) - b)
              (zip (map (\<lambda>(r, g, b). real (unat r)) ?px) (map (\<lambda>(r, g, b). real (unat g)) ?px))
              (map (\<lambda>(r, g, b). real (unat b)) ?px)
            = map (\<lambda>(r, g, b). 0.5 * (r + g) - b) (map rgb_of_bgr (concat img))"
    unfolding px
    by (simp add: zip_map_map zip_same_conv_map rgb_of_bgr_def split_def)
  show ?thesis
    unfolding colorfulness_of_def colorfulness_spec_def Let_def rg yb np_std_spec np_mean_spec
    by (rule refl)
qed

lemma colorfulness_spec_nonneg: "0 \<le> colorfulness_spec rgb"
  by (simp add: colorfulness_spec_def Let_def)

lemma spectrum_entropy_spec:
  assumes "\<forall>x\<in>set s. 0 \<le> x"
  shows "spectrum_entropy s = F (entropy_spec s)"
proof (cases "sum_list s = 0")
  case True
  have z: "\<forall>x\<in>set s. x = 0"
    using assms True by (simp add: sum_list_nonneg_eq_0_iff)
  then have "list_all (\<lambda>x. x = 0) s" by (simp add: list_all_iff)
  moreover have "filter (\<lambda>q. q > 0.0000000001) (map (\<lambda>x. x / sum_list s) s) = []"
    using True by (simp add: filter_empty_conv)
  ultimately show ?thesis
    using True by (simp add: spectrum_entropy_def entropy_spec_def Let_def)
next
  case False
  show ?thesis
    unfolding spectrum_entropy_def entropy_spec_def Let_def
    by (simp only: False if_False)
qed

lemma entropy_spec_nonneg:
  assumes "\<forall>x\<in>set s. 0 \<le> x"
  shows "0 \<le> entropy_spec s"
proof -
  have tot: "0 \<le> sum_list s" using assms by (simp add: sum_list_nonneg)
  have le: "x \<le> sum_list s" if "x \<in> set s" for x
    using that assms by (simp add: member_le_sum_list)
  have "q * log 2 q \<le> 0"
    if "q \<in> set (filter (\<lambda>q. q > 0.0000000001) (map (\<lambda>x. x / sum_list s) s))" for q
  proof -
    from that obtain x where x: "x \<in> set s" "q = x / sum_list s" and pos: "0 < q" by auto
    have "sum_list s \<noteq> 0" using pos x by auto
    with tot have tpos: "0 < sum_list s" by simp
    have "q \<le> 1" using le[OF x(1)] tpos x(2) by (simp add: divide_le_eq)
    with pos have "log 2 q \<le> 0" by simp
    with pos show ?thesis by (simp add: mult_nonneg_nonpos)
  qed
  then have "(\<Sum>q\<leftarrow>filter (\<lambda>q. q > 0.0000000001) (map (\<lambda>x. x / sum_list s) s). q * log 2 q) \<le> 0"
    by (intro sum_list_nonpos) auto
  then show ?thesis by (simp add: entropy_spec_def Let_def)
qed

text \<open>
  Claim C5. Whatever the argument, the two extractors return a value and raise nothing.
  For a missing image (the argument \<open>None\<close>), for a path without a file and for a file
  that does not decode, the value is \<open>0.0\<close>.
\<close>

theorem extractors_absorb_failure:
  "(\<exists>v. calculate_colorfulness ipa lib fs p = Inr v)
   \<and> (\<exists>v. calculate_svd_entropy ipa lib fs p = Inr v)
   \<and> calculate_colorfulness ipa lib fs None = Inr (F 0.0)
   \<and> calculate_svd_entropy ipa lib fs None = Inr (F 0.0)
   \<and> (fs path = None \<longrightarrow>
        calculate_colorfulness ipa lib fs (Some path) = Inr (F 0.0)
        \<and> calculate_svd_entropy ipa lib fs (Some path) = Inr (F 0.0))
   \<and> (fs path = Some bytes \<and> decode_color lib bytes = None \<longrightarrow>
        calculate_colorfulness ipa lib fs (Some path) = Inr (F 0.0))
   \<and> (fs path = Some bytes \<and> decode_gray lib bytes = None \<longrightarrow>
        calculate_svd_entropy ipa lib fs (Some path) = Inr (F 0.0))"
  by (auto simp: calculate_colorfulness_def colorfulness_body_def imread_def
      calculate_svd_entropy_def svd_entropy_body_def split: sum.splits option.splits)

theorem extractors_absorb_failure_witness:
  "calculate_colorfulness True example_image_lib Map.empty None = Inr (F 0.0)
   \<and> calculate_svd_entropy True example_image_lib Map.empty None = Inr (F 0.0)
   \<and> calculate_colorfulness True example_image_lib Map.empty (Some ''missing.png'') = Inr (F 0.0)
   \<and> calculate_svd_entropy True example_image_lib Map.empty (Some ''missing.png'') = Inr (F 0.0)
   \<and> calculate_colorfulness True blind_image_lib [''notes.txt'' \<mapsto> [1, 2]] (Some ''notes.txt'')
        = Inr (F 0.0)
   \<and> calculate_svd_entropy True blind_image_lib [''notes.txt'' \<mapsto> [1, 2]] (Some ''notes.txt'')
        = Inr (F 0.0)"
  using extractors_absorb_failure
      [where ipa = True and lib = example_image_lib and fs = Map.empty
         and path = "''missing.png''"]
    extractors_absorb_failure
      [where ipa = True and lib = blind_image_lib and fs = "[''notes.txt'' \<mapsto> [1, 2]]"
         and path = "''notes.txt''" and bytes = "[1, 2]"]
  by (simp add: blind_image_lib_def)

text \<open>
  Claim C6. For a file that decodes to an image with at least one pixel, the
  colourfulness is \<open>sqrt(std(rg)\<^sup>2 + std(yb)\<^sup>2) + 0.3 sqrt(mean(rg)\<^sup>2 + mean(yb)\<^sup>2)\<close> over
  \<open>rg = R - G\<close> and \<open>yb = 0.5 (R + G) - B\<close> of its pixels. The spectral entropy is taken
  from the greyscale decoding, resized to 64 by 64: its singular values, which are
  not negative, are normalised to sum 1, those not above \<open>1e-10\<close> are dropped, and the
  result is the Shannon entropy to base 2 of the rest. Both results are at least 0.
\<close>

theorem image_features_formulas:
  "(fs path = Some bytes \<and> decode_color lib bytes = Some img \<and> concat img \<noteq> [] \<longrightarrow>
      calculate_colorfulness True lib fs (Some path)
        = Inr (F (colorfulness_spec (map rgb_of_bgr (concat img))))
      \<and> 0 \<le> colorfulness_spec (map rgb_of_bgr (concat img)))
   \<and> (fs path = Some bytes \<and> decode_gray lib bytes = Some gray
       \<and> cv2_resize lib gray (64, 64) = Inr small
       \<and> linalg_svd lib (map (map (\<lambda>p. real (unat p))) small) = Inr s
       \<and> (\<forall>x\<in>set s. 0 \<le> x) \<longrightarrow>
      calculate_svd_entropy True lib fs (Some path) = Inr (F (entropy_spec s))
      \<and> 0 \<le> entropy_spec s)"
  by (simp add: calculate_colorfulness_def colorfulness_body_def imread_def cvtColor_BGR2RGB_def
      colorfulness_of_spec colorfulness_spec_nonneg calculate_svd_entropy_def
      svd_entropy_body_def spectrum_entropy_spec entropy_spec_nonneg)

theorem image_features_formulas_witness:
  "calculate_colorfulness True example_image_lib [''a.png'' \<mapsto> [0]] (Some ''a.png'')
     = Inr (F (colorfulness_spec [(30, 20, 10)]))
   \<and> 0 \<le> colorfulness_spec [(30, 20, 10)]
   \<and> calculate_svd_entropy True example_image_lib [''a.png'' \<mapsto> [0]] (Some ''a.png'')
     = Inr (F (entropy_spec [1, 1]))
   \<and> 0 \<le> entropy_spec [1, 1]"
  using image_features_formulas
      [where fs = "[''a.png'' \<mapsto> [0]]" and path = "''a.png''" and bytes = "[0]"
         and lib = example_image_lib and img = "[[(10, 20, 30)]]" and gray = "[[7]]"
         and small = "[[7]]" and s = "[1, 1]"]
  by (simp add: example_image_lib_def rgb_of_bgr_def)

subsection \<open>The feature dict\<close>

lemma image_group_keys:
  "image_group inp imf = Inr ir \<Longrightarrow> map fst ir = [''colorfulness_score'', ''svd_entropy'']"
  by (auto simp: image_group_def split: if_splits sum.splits)

lemma dimension_group_keys:
  "dimension_group inp = Inr dr \<Longrightarrow>
     map fst dr = [''aspect_ratio'', ''log_area'', ''log_width'', ''log_height'',
                   ''area_per_width'', ''area_per_height'']"
  by (auto simp: dimension_group_def Let_def split: sum.splits)

lemma age_group_Inr:
  assumes "age_group inp = Inr agr"
  shows "2024 - year inp < 2 ^ 64"
    and "agr = [(''log_age'', F (ln (1 + real_of_int (max 0 (2024 - year inp))))),
                (''is_antique'', I (flag (2024 - year inp \<ge> 100))),
                (''is_vintage'', I (flag (20 \<le> 2024 - year inp \<and> 2024 - year inp < 100))),
                (''is_modern'', I (flag (2024 - year inp < 20)))]"
proof -
  have pos: "- 1 < real_of_int (max 0 (2024 - year inp))"
    by (simp add: max_def)
  from assms have r: "max 0 (2024 - year inp) < 2 ^ 64"
    by (auto simp: age_group_def np_log1p_int_def Let_def split: if_splits sum.splits)
  then show "2024 - year inp < 2 ^ 64" by simp
  from assms r pos
  show "agr = [(''log_age'', F (ln (1 + real_of_int (max 0 (2024 - year inp))))),
                (''is_antique'', I (flag (2024 - year inp \<ge> 100))),
                (''is_vintage'', I (flag (20 \<le> 2024 - year inp \<and> 2024 - year inp < 100))),
                (''is_modern'', I (flag (2024 - year inp < 20)))]"
    by (auto simp: age_group_def np_log1p_int_def np_log1p_def Let_def
        split: if_splits sum.splits)
qed

lemma age_group_too_old:
  "2 ^ 64 \<le> 2024 - year inp \<Longrightarrow> age_group inp = Inl TypeError"
  by (simp add: age_group_def np_log1p_int_def Let_def max_def)

lemma age_group_keys:
  "age_group inp = Inr agr \<Longrightarrow>
     map fst agr = [''log_age'', ''is_antique'', ''is_vintage'', ''is_modern'']"
  using age_group_Inr(2)[of inp agr] by simp

lemma artist_group_keys:
  "artist_group a = Inr ar \<Longrightarrow>
     map fst ar = [''log_artist_frequency'', ''artist_rarity'', ''is_rare_artist'',
                   ''is_popular_artist'', ''is_very_popular_artist'', ''artist_frequency'']"
  by (auto simp: artist_group_def Let_def split: if_splits sum.splits)

lemma compute_features_Inr:
  assumes "compute_features lib dbm inp imf = Inr fs"
  obtains db ir dr agr ar where "dbm = Some db"
    and "image_group inp imf = Inr ir"
    and "dimension_group inp = Inr dr"
    and "age_group inp = Inr agr"
    and "artist_group (get_artist_data lib db (artist inp)) = Inr ar"
    and "fs = categorical_group lib inp @ edition_group lib inp @ numeric_group lib inp
              @ signature_group lib inp @ technique_group lib inp @ binary_edition_group lib inp
              @ ir @ dr @ size_group inp @ agr @ year_group inp @ ar
              @ complexity_group lib inp @ any_signature_group lib inp @ object_group
              @ composite_group lib inp @ interaction_group lib inp (get_artist_data lib db (artist inp))
              @ title_group lib inp @ market_group lib db inp (get_artist_data lib db (artist inp))"
  using assms
  by (auto simp: compute_features_def Let_def split: option.splits sum.splits)

lemma compute_features_names:
  assumes "compute_features lib dbm inp imf = Inr fs"
  shows "map fst fs = computed_names"
proof -
  from assms obtain db ir dr agr ar where
    ir: "image_group inp imf = Inr ir" and dr: "dimension_group inp = Inr dr"
    and agr: "age_group inp = Inr agr"
    and ar: "artist_group (get_artist_data lib db (artist inp)) = Inr ar"
    and fs: "fs = categorical_group lib inp @ edition_group lib inp @ numeric_group lib inp
              @ signature_group lib inp @ technique_group lib inp @ binary_edition_group lib inp
              @ ir @ dr @ size_group inp @ agr @ year_group inp @ ar
              @ complexity_group lib inp @ any_signature_group lib inp @ object_group
              @ composite_group lib inp @ interaction_group lib inp (get_artist_data lib db (artist inp))
              @ title_group lib inp @ market_group lib db inp (get_artist_data lib db (artist inp))"
    by (rule compute_features_Inr)
  show ?thesis
    unfolding fs map_append image_group_keys[OF ir] dimension_group_keys[OF dr]
      age_group_keys[OF agr] artist_group_keys[OF ar]
    by (simp add: computed_names_def categorical_group_def edition_group_def numeric_group_def
        signature_group_def technique_group_def binary_edition_group_def size_group_def
        year_group_def complexity_group_def any_signature_group_def
        object_group_def composite_group_def interaction_group_def title_group_def
        market_group_def Let_def)
qed


text \<open>
  The builder returns its dict for a request without image features whenever no
  division is by zero and the two arguments of \<open>log1p\<close> that are integers fit 64 bits.
\<close>

lemma compute_features_succeeds:
  assumes "height inp + 0.00000001 \<noteq> 0" and "width inp + 0.00000001 \<noteq> 0"
    and "2024 - year inp < 2 ^ 64"
    and "- (2 ^ 63) \<le> frequency (get_artist_data lib db (artist inp))"
    and "frequency (get_artist_data lib db (artist inp)) < 2 ^ 64"
    and "frequency (get_artist_data lib db (artist inp)) \<noteq> - 1"
  shows "\<exists>fs. compute_features lib (Some db) inp None = Inr fs"
proof -
  have "max 0 (2024 - year inp) < 2 ^ 64" using assms(3) by simp
  then have "\<exists>agr. age_group inp = Inr agr"
    by (simp add: age_group_def np_log1p_int_def Let_def)
  moreover have "\<exists>ar. artist_group (get_artist_data lib db (artist inp)) = Inr ar"
    using assms(4-6) by (simp add: artist_group_def np_log1p_int_def Let_def)
  ultimately show ?thesis
    using assms(1,2)
    by (auto simp: compute_features_def image_group_def dimension_group_def py_div_def Let_def)
qed

lemma map_of_absent: "map fst xs = ks \<Longrightarrow> k \<notin> set ks \<Longrightarrow> map_of xs k = None"
  by (metis map_of_eq_None_iff set_map)

lemma map_of_skip: "map_of xs k = None \<Longrightarrow> map_of (xs @ ys) k = map_of ys k"
  by (simp add: map_add_def)

lemma map_of_hit: "map_of xs k = Some v \<Longrightarrow> map_of (xs @ ys) k = Some v"
  by (simp add: map_add_def)

lemma age_group_lookup:
  assumes "compute_features lib dbm inp imf = Inr fs"
    and "k \<in> {''log_age'', ''is_antique'', ''is_vintage'', ''is_modern''}"
  shows "\<exists>agr. age_group inp = Inr agr \<and> map_of fs k = map_of agr k"
proof -
  from assms(1) obtain db ir dr agr ar where
    ir: "image_group inp imf = Inr ir" and dr: "dimension_group inp = Inr dr"
    and agr: "age_group inp = Inr agr"
    and fs: "fs = categorical_group lib inp @ edition_group lib inp @ numeric_group lib inp
              @ signature_group lib inp @ technique_group lib inp @ binary_edition_group lib inp
              @ ir @ dr @ size_group inp @ agr @ year_group inp @ ar
              @ complexity_group lib inp @ any_signature_group lib inp @ object_group
              @ composite_group lib inp @ interaction_group lib inp (get_artist_data lib db (artist inp))
              @ title_group lib inp @ market_group lib db inp (get_artist_data lib db (artist inp))"
    by (rule compute_features_Inr)
  have a: "map_of ir k = None"
    using assms(2) by (intro map_of_absent[OF image_group_keys[OF ir]]) auto
  have b: "map_of dr k = None"
    using assms(2) by (intro map_of_absent[OF dimension_group_keys[OF dr]]) auto
  have g1: "map_of (categorical_group lib inp) k = None"
    using assms(2) by (auto simp: categorical_group_def)
  have g2: "map_of (edition_group lib inp) k = None"
    using assms(2) by (auto simp: edition_group_def)
  have g3: "map_of (numeric_group lib inp) k = None"
    using assms(2) by (auto simp: numeric_group_def)
  have g4: "map_of (signature_group lib inp) k = None"
    using assms(2) by (auto simp: signature_group_def)
  have g5: "map_of (technique_group lib inp) k = None"
    using assms(2) by (auto simp: technique_group_def)
  have g6: "map_of (binary_edition_group lib inp) k = None"
    using assms(2) by (auto simp: binary_edition_group_def)
  have g9: "map_of (size_group inp) k = None"
    using assms(2) by (auto simp: size_group_def Let_def)
  obtain v where v: "map_of agr k = Some v"
    using assms(2) by (auto simp: age_group_Inr(2)[OF agr])
  have "map_of fs k = map_of agr k"
    unfolding fs
    by (simp only: map_of_skip[OF g1] map_of_skip[OF g2] map_of_skip[OF g3] map_of_skip[OF g4]
        map_of_skip[OF g5] map_of_skip[OF g6] map_of_skip[OF a] map_of_skip[OF b]
        map_of_skip[OF g9] map_of_hit[OF v] v)
  with agr show ?thesis by blast
qed

text \<open>
  Claim C8, as the code has it: for every year with \<open>2024 - year < 2^64\<close>, in the feature
  dict the builder returns (and it returns one only for such a year) \<open>log_age\<close> is
  \<open>log1p(max(0, age))\<close> for \<open>age = 2024 - year\<close>, and of the flags \<open>is_antique\<close> (age at
  least 100), \<open>is_vintage\<close> (age from 20 to 99) and \<open>is_modern\<close> (age below 20) exactly one
  is 1. For the year 2024 the age is 0: \<open>is_modern\<close> is 1, the other two flags are 0 and
  \<open>log_age\<close> is \<open>0.0\<close>. The builder does return a dict for such a year when the request
  has no image features, no division is by zero and the artist's frequency fits 64 bits.
\<close>

theorem age_features:
  "(compute_features lib dbm inp imf = Inr fs \<longrightarrow>
      2024 - year inp < 2 ^ 64
      \<and> (\<exists>a v m.
         map_of fs ''log_age'' = Some (F (ln (1 + real_of_int (max 0 (2024 - year inp)))))
         \<and> map_of fs ''is_antique'' = Some (I a)
         \<and> map_of fs ''is_vintage'' = Some (I v)
         \<and> map_of fs ''is_modern'' = Some (I m)
         \<and> a = (if 2024 - year inp \<ge> 100 then 1 else 0)
         \<and> v = (if 20 \<le> 2024 - year inp \<and> 2024 - year inp < 100 then 1 else 0)
         \<and> m = (if 2024 - year inp < 20 then 1 else 0)
         \<and> ((a = 1 \<and> v = 0 \<and> m = 0) \<or> (a = 0 \<and> v = 1 \<and> m = 0)
              \<or> (a = 0 \<and> v = 0 \<and> m = 1))))
   \<and> (compute_features lib dbm inp imf = Inr fs \<and> year inp = 2024 \<longrightarrow>
        map_of fs ''log_age'' = Some (F 0.0)
        \<and> map_of fs ''is_antique'' = Some (I 0)
        \<and> map_of fs ''is_vintage'' = Some (I 0)
        \<and> map_of fs ''is_modern'' = Some (I 1))
   \<and> (2024 - year inp < 2 ^ 64
       \<and> height inp + 0.00000001 \<noteq> 0 \<and> width inp + 0.00000001 \<noteq> 0
       \<and> - (2 ^ 63) \<le> frequency (get_artist_data lib db (artist inp))
       \<and> frequency (get_artist_data lib db (artist inp)) < 2 ^ 64
       \<and> frequency (get_artist_data lib db (artist inp)) \<noteq> - 1 \<longrightarrow>
        (\<exists>fs'. compute_features lib (Some db) inp None = Inr fs'))"
proof -
  have main: "2024 - year inp < 2 ^ 64
      \<and> map_of fs ''log_age'' = Some (F (ln (1 + real_of_int (max 0 (2024 - year inp)))))
      \<and> map_of fs ''is_antique'' = Some (I (if 2024 - year inp \<ge> 100 then 1 else 0))
      \<and> map_of fs ''is_vintage''
          = Some (I (if 20 \<le> 2024 - year inp \<and> 2024 - year inp < 100 then 1 else 0))
      \<and> map_of fs ''is_modern'' = Some (I (if 2024 - year inp < 20 then 1 else 0))"
    if c: "compute_features lib dbm inp imf = Inr fs"
  proof -
    obtain agr where agr: "age_group inp = Inr agr"
      using age_group_lookup[OF c, of "''log_age''"] by auto
    have same: "map_of fs k = map_of agr k"
      if kk: "k \<in> {''log_age'', ''is_antique'', ''is_vintage'', ''is_modern''}" for k
      using age_group_lookup[OF c kk] agr by auto
    have la: "map_of fs ''log_age'' = map_of agr ''log_age''"
      by (simp add: same)
    have ia: "map_of fs ''is_antique'' = map_of agr ''is_antique''"
      and iv: "map_of fs ''is_vintage'' = map_of agr ''is_vintage''"
      and im: "map_of fs ''is_modern'' = map_of agr ''is_modern''"
      by (simp_all add: same)
    show ?thesis
      unfolding la ia iv im
      using age_group_Inr(1)[OF agr] by (simp add: age_group_Inr(2)[OF agr] flag_def)
  qed
  have first: "2024 - year inp < 2 ^ 64
      \<and> (\<exists>a v m.
         map_of fs ''log_age'' = Some (F (ln (1 + real_of_int (max 0 (2024 - year inp)))))
         \<and> map_of fs ''is_antique'' = Some (I a)
         \<and> map_of fs ''is_vintage'' = Some (I v)
         \<and> map_of fs ''is_modern'' = Some (I m)
         \<and> a = (if 2024 - year inp \<ge> 100 then 1 else 0)
         \<and> v = (if 20 \<le> 2024 - year inp \<and> 2024 - year inp < 100 then 1 else 0)
         \<and> m = (if 2024 - year inp < 20 then 1 else 0)
         \<and> ((a = 1 \<and> v = 0 \<and> m = 0) \<or> (a = 0 \<and> v = 1 \<and> m = 0)
              \<or> (a = 0 \<and> v = 0 \<and> m = 1)))"
    if c: "compute_features lib dbm inp imf = Inr fs"
    apply (rule conjI)
    using main[OF c] apply blast
    apply (rule exI[where x = "if 2024 - year inp \<ge> 100 then 1 else 0"])
    apply (rule exI[where x = "if 20 \<le> 2024 - year inp \<and> 2024 - year inp < 100 then 1 else 0"])
    apply (rule exI[where x = "if 2024 - year inp < 20 then 1 else 0"])
    using main[OF c] by simp
  have second: "map_of fs ''log_age'' = Some (F 0.0)
        \<and> map_of fs ''is_antique'' = Some (I 0)
        \<and> map_of fs ''is_vintage'' = Some (I 0)
        \<and> map_of fs ''is_modern'' = Some (I 1)"
    if c: "compute_features lib dbm inp imf = Inr fs" and y: "year inp = 2024"
    using main[OF c] by (simp add: y)
  have third: "\<exists>fs'. compute_features lib (Some db) inp None = Inr fs'"
    if "2024 - year inp < 2 ^ 64"
      and "height inp + 0.00000001 \<noteq> 0" and "width inp + 0.00000001 \<noteq> 0"
      and "- (2 ^ 63) \<le> frequency (get_artist_data lib db (artist inp))"
      and "frequency (get_artist_data lib db (artist inp)) < 2 ^ 64"
      and "frequency (get_artist_data lib db (artist inp)) \<noteq> - 1"
    using that by (intro compute_features_succeeds)
  show ?thesis
    using first second third by blast
qed

theorem age_features_witness:
  "\<exists>fs. compute_features example_pylib (Some (init_database empty_database))
           (picasso_artwork\<lparr>year := 2024\<rparr>) None = Inr fs
        \<and> year (picasso_artwork\<lparr>year := 2024\<rparr>) = 2024
        \<and> map_of fs ''log_age'' = Some (F 0.0)
        \<and> map_of fs ''is_antique'' = Some (I 0)
        \<and> map_of fs ''is_vintage'' = Some (I 0)
        \<and> map_of fs ''is_modern'' = Some (I 1)"
proof -
  let ?a = "picasso_artwork\<lparr>year := 2024\<rparr>"
  let ?db = "init_database empty_database"
  have g: "frequency (get_artist_data example_pylib ?db (artist picasso_artwork)) = 150"
    by (simp add: picasso_artwork_def get_picasso)
  have hw: "height ?a + 0.00000001 \<noteq> 0" "width ?a + 0.00000001 \<noteq> 0"
    "2024 - year ?a < 2 ^ 64"
    by (simp_all add: picasso_artwork_def)
  note t = age_features[where lib = example_pylib and inp = ?a and db = ?db
      and dbm = "Some ?db" and imf = None]
  have "\<exists>fs'. compute_features example_pylib (Some ?db) ?a None = Inr fs'"
    using t[where fs = "[]", THEN conjunct2, THEN conjunct2] hw by (simp add: g)
  then obtain fs where fs: "compute_features example_pylib (Some ?db) ?a None = Inr fs"
    by (elim exE)
  have y: "year ?a = 2024" by simp
  have "map_of fs ''log_age'' = Some (F 0.0)
        \<and> map_of fs ''is_antique'' = Some (I 0)
        \<and> map_of fs ''is_vintage'' = Some (I 0)
        \<and> map_of fs ''is_modern'' = Some (I 1)"
    using t[where fs = fs, THEN conjunct2, THEN conjunct1] fs y by blast
  with fs y show ?thesis by blast
qed

text \<open>
  Claim C8 as the specification states it, for every integer year, fails: for the year
  \<open>2024 - 2^64\<close> numpy's \<open>log1p\<close> rejects the age \<open>2^64\<close> and the builder ends with a
  \<open>TypeError\<close> (answered 500), without a feature dict.
\<close>

theorem age_features_counterexample:
  "compute_features example_pylib (Some (init_database empty_database))
     (picasso_artwork\<lparr>year := 2024 - 2 ^ 64\<rparr>) None = Inl TypeError"
proof -
  have "age_group (picasso_artwork\<lparr>year := 2024 - 2 ^ 64\<rparr>) = Inl TypeError"
    by (rule age_group_too_old) simp
  then show ?thesis
    by (simp add: compute_features_def image_group_def dimension_group_def py_div_def
        picasso_artwork_def Let_def)
qed

subsection \<open>Validation of the request\<close>

lemma build_frame_no_schema:
  assumes "feature_info st = None"
    and "compute_features lib (db_manager st) inp imf = Inr fs"
  shows "build_frame lib st inp imf = Inr (map (\<lambda>(col, v). (col, to_numeric_fillna lib v)) fs)"
  using assms
  by (cases "fs = []")
     (simp_all add: build_frame_def expected_features_of_def categorical_indices_of_def
        convert_numeric_def)

lemma predict_price_no_schema:
  assumes "compute_features lib (Some db) artwork None = Inr fs"
  shows "predict_price lib
           \<lparr>model = Some (\<lambda>df. Inr answer), model_loaded = True, feature_info = None,
            db_manager = Some db\<rparr> artwork =
         Inr \<lparr>predicted_price = py_round (rescale_price answer (get_artist_data lib db (artist artwork))) 2,
              log_price = py_round answer 4,
              confidence = confidence_of (frequency (get_artist_data lib db (artist artwork))),
              artist_popularity = popularity_of (frequency (get_artist_data lib db (artist artwork))),
              image_quality = ''Not provided'',
              features_used = 0,
              model_type = ''CatBoost_57_Features''\<rparr>"
proof -
  let ?st = "\<lparr>model = Some (\<lambda>df. Inr answer), model_loaded = True, feature_info = None,
            db_manager = Some db\<rparr>"
  have "build_frame lib ?st artwork None
          = Inr (map (\<lambda>(col, v). (col, to_numeric_fillna lib v)) fs)"
    by (rule build_frame_no_schema) (simp_all add: assms)
  then show ?thesis
    by (simp add: predict_price_def predict_body_def create_all_57_features_def
        features_count_of_def Let_def)
qed

lemma py_round_5000: "py_round 5000 2 = 5000"
  by (simp add: py_round_def Let_def)

text \<open>
  Claim C3 asks that a request whose year is outside 1200 to 2024, or whose width or
  height is not positive, is answered 422 before any feature is built. On the code the
  claim fails: \<open>ArtworkInput\<close> declares no bound on these fields. With a model loaded,
  the request of the repository's tests with width 0, and the same request with year
  1000 and width -100 (the values the tests expect to be rejected), pass validation,
  go through the builder and the model, and are answered with a price.
\<close>

theorem predict_accepts_out_of_range:
  "post_predict lib (loaded_app_state (ln 101) None)
     (picasso_body\<lparr>body_width := Some 0\<rparr>)
   = Inr \<lparr>predicted_price = 5000, log_price = py_round (ln 101) 4, confidence = ''HIGH'',
          artist_popularity = ''VERY_POPULAR'', image_quality = ''Not provided'',
          features_used = 0, model_type = ''CatBoost_57_Features''\<rparr>
   \<and> post_predict lib (loaded_app_state (ln 101) None)
     (picasso_body\<lparr>body_year := Some 1000, body_width := Some (- 100)\<rparr>)
   = Inr \<lparr>predicted_price = 5000, log_price = py_round (ln 101) 4, confidence = ''HIGH'',
          artist_popularity = ''VERY_POPULAR'', image_quality = ''Not provided'',
          features_used = 0, model_type = ''CatBoost_57_Features''\<rparr>"
proof -
  let ?db = "init_database empty_database"
  let ?st = "\<lparr>model = Some (\<lambda>df. Inr (ln 101)), model_loaded = True, feature_info = None,
             db_manager = Some ?db\<rparr>"
  let ?a1 = "picasso_artwork\<lparr>width := 0\<rparr>"
  let ?a2 = "picasso_artwork\<lparr>year := 1000, width := - 100\<rparr>"
  let ?r = "\<lparr>predicted_price = 5000, log_price = py_round (ln 101) 4, confidence = ''HIGH'',
          artist_popularity = ''VERY_POPULAR'', image_quality = ''Not provided'',
          features_used = 0, model_type = ''CatBoost_57_Features''\<rparr>"
  have v1: "validate_artwork (picasso_body\<lparr>body_width := Some 0\<rparr>) = Inr ?a1"
    by (simp add: validate_artwork_def picasso_body_def picasso_artwork_def)
  have v2: "validate_artwork (picasso_body\<lparr>body_year := Some 1000, body_width := Some (- 100)\<rparr>)
              = Inr ?a2"
    by (simp add: validate_artwork_def picasso_body_def picasso_artwork_def)
  have g: "get_artist_data lib ?db (artist picasso_artwork)
             = \<lparr>frequency = 150, median_price = 50000, price_std = 25000\<rparr>"
    by (simp add: picasso_artwork_def get_picasso)
  have hw: "height picasso_artwork = 80" "width picasso_artwork = 100"
    "year picasso_artwork = 1907"
    by (simp_all add: picasso_artwork_def)
  obtain fs1 where c1: "compute_features lib (Some ?db) ?a1 None = Inr fs1"
    using compute_features_succeeds[where lib = lib and inp = ?a1 and db = ?db] by (auto simp: g hw)
  obtain fs2 where c2: "compute_features lib (Some ?db) ?a2 None = Inr fs2"
    using compute_features_succeeds[where lib = lib and inp = ?a2 and db = ?db] by (auto simp: g hw)
  have r: "rescale_price (ln 101) \<lparr>frequency = 150, median_price = 50000, price_std = 25000\<rparr> = 5000"
    by (simp add: rescale_price_def artist_scaling_def np_expm1_def Let_def)
  have p1: "predict_price lib ?st ?a1 = Inr ?r"
    using predict_price_no_schema[OF c1, where answer = "ln 101"]
    by (simp add: g r py_round_5000 confidence_of_def popularity_of_def)
  have p2: "predict_price lib ?st ?a2 = Inr ?r"
    using predict_price_no_schema[OF c2, where answer = "ln 101"]
    by (simp add: g r py_round_5000 confidence_of_def popularity_of_def)
  show ?thesis
    unfolding post_predict_def v1 v2 loaded_app_state_def
    using p1 p2 by simp
qed

subsection \<open>Schema alignment and the coercions\<close>


lemma keys_dict_set: "fst ` set (dict_set d k v) = insert k (fst ` set d)"
  by (induction d k v rule: dict_set.induct) auto

lemma in_dict_set: "(a, b) \<in> set (dict_set d k v) \<Longrightarrow> a = k \<or> a \<in> fst ` set d"
  using keys_dict_set[of d k v] by force

lemma distinct_dict_set: "distinct (map fst d) \<Longrightarrow> distinct (map fst (dict_set d k v))"
  by (induction d k v rule: dict_set.induct) (auto dest: in_dict_set)

lemma dict_set_absent: "k \<notin> set (map fst d) \<Longrightarrow> dict_set d k v = d @ [(k, v)]"
  by (induction d k v rule: dict_set.induct) auto


lemma fold_dict_set_distinct:
  "distinct (map fst acc) \<Longrightarrow> distinct (map fst (fold (\<lambda>n acc. dict_set acc n (f n)) names acc))"
  by (induction names arbitrary: acc) (auto simp: distinct_dict_set)

lemma fold_dict_set_fresh:
  "distinct names \<Longrightarrow> set names \<inter> set (map fst acc) = {} \<Longrightarrow>
     fold (\<lambda>n acc. dict_set acc n (f n)) names acc = acc @ map (\<lambda>n. (n, f n)) names"
proof (induction names arbitrary: acc)
  case Nil
  then show ?case by simp
next
  case (Cons n names)
  have "dict_set acc n (f n) = acc @ [(n, f n)]"
    using Cons.prems by (intro dict_set_absent) auto
  moreover have "set names \<inter> set (map fst (acc @ [(n, f n)])) = {}"
    using Cons.prems by auto
  ultimately show ?case
    using Cons.IH[of "acc @ [(n, f n)]"] Cons.prems by simp
qed


lemma distinct_align_features: "distinct (map fst (align_features features names))"
  by (simp add: align_features_def fold_dict_set_distinct)

lemma align_features_distinct_names:
  "distinct names \<Longrightarrow>
     align_features features names = map (\<lambda>n. (n, fill_feature features n)) names"
  by (simp add: align_features_def fold_dict_set_fresh)

lemma py_index_length: "length xs = length ys \<Longrightarrow> py_index xs i = py_index ys i"
  by (simp add: py_index_def)

lemma py_index_bound: "py_index xs i = Inr j \<Longrightarrow> j < length xs"
  by (auto simp: py_index_def Let_def split: if_splits)

lemma py_str_text: "py_str lib (S s) = s"
  by (simp add: py_str_def)

lemma categorical_to_str_nth:
  "categorical_to_str lib df cat = Inr df' \<Longrightarrow>
     length df' = length df
     \<and> (\<forall>i<length df.
          df' ! i = (if \<exists>idx\<in>set cat. py_index df idx = Inr i
                     then (fst (df ! i), S (py_str lib (snd (df ! i))))
                     else df ! i))"
proof (induction cat arbitrary: df)
  case Nil
  then show ?case by simp
next
  case (Cons idx rest)
  show ?case
  proof (cases "idx < int (length df)")
    case False
    then have no: "py_index df idx \<noteq> Inr i" for i
      by (auto simp: py_index_def Let_def)
    from Cons.prems False have "categorical_to_str lib df rest = Inr df'" by simp
    from Cons.IH[OF this] show ?thesis using no by simp
  next
    case True
    with Cons.prems obtain j where j: "py_index df idx = Inr j"
      and rec: "categorical_to_str lib
                  (df[j := (fst (df ! j), S (py_str lib (snd (df ! j))))]) rest = Inr df'"
      by (auto split: sum.splits)
    let ?df1 = "df[j := (fst (df ! j), S (py_str lib (snd (df ! j))))]"
    have jn: "j < length df" using j by (rule py_index_bound)
    have same: "py_index ?df1 i = py_index df i" for i
      by (rule py_index_length) simp
    from Cons.IH[OF rec] have len: "length df' = length df"
      and nth: "\<forall>i<length df.
          df' ! i = (if \<exists>idx\<in>set rest. py_index df idx = Inr i
                     then (fst (?df1 ! i), S (py_str lib (snd (?df1 ! i))))
                     else ?df1 ! i)"
      by (simp_all add: same)
    have "df' ! i = (if \<exists>idx\<in>set (idx # rest). py_index df idx = Inr i
                     then (fst (df ! i), S (py_str lib (snd (df ! i))))
                     else df ! i)" if i: "i < length df" for i
    proof (cases "i = j")
      case True
      then show ?thesis using nth i j jn by (simp add: py_str_text)
    next
      case False
      then have "py_index df idx \<noteq> Inr i" using j by simp
      then show ?thesis using nth i False by simp
    qed
    with len show ?thesis by blast
  qed
qed

lemma index_all_set:
  "index_all xs is = Inr js \<Longrightarrow> set js = {j. \<exists>i\<in>set is. py_index xs i = Inr j}"
proof (induction "is" arbitrary: js)
  case Nil
  then show ?case by simp
next
  case (Cons i "is")
  from Cons.prems obtain j js' where j: "py_index xs i = Inr j"
    and rest: "index_all xs is = Inr js'" and js: "js = j # js'"
    by (auto split: sum.splits)
  from Cons.IH[OF rest] show ?case using j js by auto
qed

lemma convert_numeric_Inr:
  assumes "convert_numeric lib cat df = Inr df''" and "df \<noteq> []"
  obtains js where "index_all df cat = Inr js"
    and "df'' = map (\<lambda>(col, v).
                       if col \<in> set (map (\<lambda>j. fst (df ! j)) js) then (col, v)
                       else (col, to_numeric_fillna lib v)) df"
  using assms by (auto simp: convert_numeric_def split: sum.splits)

lemma convert_numeric_length: "convert_numeric lib cat df = Inr df'' \<Longrightarrow> length df'' = length df"
  by (auto simp: convert_numeric_def split: sum.splits if_splits)

lemma coerce_nth:
  assumes cts: "categorical_to_str lib df cat = Inr df'"
    and cn: "convert_numeric lib cat df' = Inr df''"
    and d: "distinct (map fst df)"
    and i: "i < length df"
  shows "df'' ! i =
           (fst (df ! i),
            if \<exists>idx\<in>set cat. py_index df idx = Inr i then S (py_str lib (snd (df ! i)))
            else to_numeric_fillna lib (snd (df ! i)))"
proof -
  from categorical_to_str_nth[OF cts] have len: "length df' = length df"
    and nth: "\<And>i. i < length df \<Longrightarrow>
          df' ! i = (if \<exists>idx\<in>set cat. py_index df idx = Inr i
                     then (fst (df ! i), S (py_str lib (snd (df ! i))))
                     else df ! i)"
    by simp_all
  have key: "fst (df' ! j) = fst (df ! j)" if "j < length df" for j
    using nth[OF that] by (simp split: if_splits)
  have ne: "df' \<noteq> []" using i len by auto
  from convert_numeric_Inr[OF cn ne] obtain js where js: "index_all df' cat = Inr js"
    and df'': "df'' = map (\<lambda>(col, v).
                       if col \<in> set (map (\<lambda>j. fst (df' ! j)) js) then (col, v)
                       else (col, to_numeric_fillna lib v)) df'"
    by blast
  have setjs: "set js = {j. \<exists>idx\<in>set cat. py_index df idx = Inr j}"
    using index_all_set[OF js] py_index_length[OF len] by simp
  have jlt: "j < length df" if "j \<in> set js" for j
    using that setjs py_index_bound by auto
  have mem: "fst (df' ! i) \<in> set (map (\<lambda>j. fst (df' ! j)) js) \<longleftrightarrow> i \<in> set js"
  proof
    assume "fst (df' ! i) \<in> set (map (\<lambda>j. fst (df' ! j)) js)"
    then obtain j where j: "j \<in> set js" and e: "fst (df' ! j) = fst (df' ! i)" by auto
    have eq: "map fst df ! j = map fst df ! i"
      using e key[OF jlt[OF j]] key[OF i] i jlt[OF j] by simp
    have "j < length (map fst df)" and "i < length (map fst df)"
      using i jlt[OF j] by simp_all
    then have "j = i"
      using nth_eq_iff_index_eq[OF d, of j i] eq by blast
    with j show "i \<in> set js" by simp
  next
    assume "i \<in> set js"
    then show "fst (df' ! i) \<in> set (map (\<lambda>j. fst (df' ! j)) js)" by auto
  qed
  have "df'' ! i = (\<lambda>(col, v).
                       if col \<in> set (map (\<lambda>j. fst (df' ! j)) js) then (col, v)
                       else (col, to_numeric_fillna lib v)) (df' ! i)"
    unfolding df'' using i len by simp
  also have "\<dots> = (if i \<in> set js then df' ! i
                    else (fst (df' ! i), to_numeric_fillna lib (snd (df' ! i))))"
    using mem by (simp add: split_def)
  finally show ?thesis
    using nth[OF i] setjs by auto
qed

lemma coerce_keys:
  assumes cts: "categorical_to_str lib df cat = Inr df'"
    and cn: "convert_numeric lib cat df' = Inr df''"
    and d: "distinct (map fst df)"
  shows "map fst df'' = map fst df"
proof (rule nth_equalityI)
  show len: "length (map fst df'') = length (map fst df)"
    using convert_numeric_length[OF cn] categorical_to_str_nth[OF cts] by simp
  show "map fst df'' ! i = map fst df ! i" if "i < length (map fst df'')" for i
    using that len coerce_nth[OF cts cn d, of i] by simp
qed

lemma coerce_lookup:
  assumes cts: "categorical_to_str lib df cat = Inr df'"
    and cn: "convert_numeric lib cat df' = Inr df''"
    and d: "distinct (map fst df)"
    and v: "map_of df k = Some v"
  shows "map_of df'' k = Some (to_numeric_fillna lib v) \<or> map_of df'' k = Some (S (py_str lib v))"
    and "cat = [] \<Longrightarrow> map_of df'' k = Some (to_numeric_fillna lib v)"
proof -
  from v have "(k, v) \<in> set df" by (rule map_of_SomeD)
  then obtain i where i: "i < length df" and e: "df ! i = (k, v)"
    by (auto simp: in_set_conv_nth)
  let ?x = "if \<exists>idx\<in>set cat. py_index df idx = Inr i then S (py_str lib v)
            else to_numeric_fillna lib v"
  have n: "df'' ! i = (k, ?x)"
    using coerce_nth[OF cts cn d i] e by simp
  have len: "length df'' = length df"
    using coerce_keys[OF cts cn d] by (metis length_map)
  have "(k, ?x) \<in> set df''"
    using n i len by (metis nth_mem)
  moreover have "distinct (map fst df'')"
    using coerce_keys[OF cts cn d] d by simp
  ultimately have m: "map_of df'' k = Some ?x" by (simp add: map_of_is_SomeI)
  show "map_of df'' k = Some (to_numeric_fillna lib v) \<or> map_of df'' k = Some (S (py_str lib v))"
    using m by (simp split: if_splits)
  show "map_of df'' k = Some (to_numeric_fillna lib v)" if "cat = []"
    using m that by simp
qed

lemma build_frame_Inr:
  assumes "build_frame lib st inp imf = Inr df"
  obtains fs df' where "compute_features lib (db_manager st) inp imf = Inr fs"
    and "categorical_to_str lib
           (case expected_features_of (feature_info st) of
              Some expected_features \<Rightarrow> align_features fs expected_features
            | None \<Rightarrow> fs)
           (categorical_indices_of (feature_info st)) = Inr df'"
    and "convert_numeric lib (categorical_indices_of (feature_info st)) df' = Inr df"
  using assms by (auto simp: build_frame_def Let_def split: sum.splits)


lemma frame_has_declared_names:
  assumes "build_frame lib st inp imf = Inr df"
    and "expected_features_of (feature_info st) = Some names"
    and "distinct names"
  shows "map fst df = names"
proof -
  from build_frame_Inr[OF assms(1)] obtain fs df' where
    c: "compute_features lib (db_manager st) inp imf = Inr fs"
    and cts: "categorical_to_str lib (align_features fs names)
                (categorical_indices_of (feature_info st)) = Inr df'"
    and cn: "convert_numeric lib (categorical_indices_of (feature_info st)) df' = Inr df"
    unfolding assms(2) by auto
  have "map fst df = map fst (align_features fs names)"
    by (rule coerce_keys[OF cts cn distinct_align_features])
  then show ?thesis
    by (simp add: align_features_distinct_names[OF assms(3)] comp_def)
qed

lemma to_numeric_fillna_float: "to_numeric_fillna lib (F x) = F x"
  by (simp add: to_numeric_fillna_def)

lemma show_nat_0: "show_nat 0 = ''0''"
  by (subst show_nat.simps) (simp add: digit_char_def)

lemma py_str_zero: "py_str lib (F 0) = ''0.0''"
  by (simp add: py_str_def show_int_def show_nat_0)

lemma categorical_group_lookup:
  assumes "compute_features lib dbm inp imf = Inr fs"
    and "map_of (categorical_group lib inp) k = Some v"
  shows "map_of fs k = Some v"
proof -
  from assms(1) obtain db ir dr agr ar where
    fs: "fs = categorical_group lib inp @ edition_group lib inp @ numeric_group lib inp
              @ signature_group lib inp @ technique_group lib inp @ binary_edition_group lib inp
              @ ir @ dr @ size_group inp @ agr @ year_group inp @ ar
              @ complexity_group lib inp @ any_signature_group lib inp @ object_group
              @ composite_group lib inp @ interaction_group lib inp (get_artist_data lib db (artist inp))
              @ title_group lib inp @ market_group lib db inp (get_artist_data lib db (artist inp))"
    by (rule compute_features_Inr)
  show ?thesis unfolding fs by (rule map_of_hit[OF assms(2)])
qed

lemma numeric_group_lookup:
  assumes "compute_features lib dbm inp imf = Inr fs"
    and "map_of (numeric_group lib inp) k = Some v"
    and "k \<in> {''width'', ''height'', ''area'', ''EXPERT_RAW'', ''auction_year''}"
  shows "map_of fs k = Some v"
proof -
  from assms(1) obtain db ir dr agr ar where
    fs: "fs = categorical_group lib inp @ edition_group lib inp @ numeric_group lib inp
              @ signature_group lib inp @ technique_group lib inp @ binary_edition_group lib inp
              @ ir @ dr @ size_group inp @ agr @ year_group inp @ ar
              @ complexity_group lib inp @ any_signature_group lib inp @ object_group
              @ composite_group lib inp @ interaction_group lib inp (get_artist_data lib db (artist inp))
              @ title_group lib inp @ market_group lib db inp (get_artist_data lib db (artist inp))"
    by (rule compute_features_Inr)
  have g1: "map_of (categorical_group lib inp) k = None"
    using assms(3) by (auto simp: categorical_group_def)
  have g2: "map_of (edition_group lib inp) k = None"
    using assms(3) by (auto simp: edition_group_def)
  show ?thesis
    unfolding fs
    by (simp only: map_of_skip[OF g1] map_of_skip[OF g2] map_of_hit[OF assms(2)])
qed

text \<open>
  Claim C2 asks that the frame has exactly the declared names in the declared order
  (which holds, see \<open>frame_has_declared_names\<close>) and that a declared name the builder
  did not compute is filled with \<open>unknown\<close> in a categorical slot and with \<open>0.0\<close> in a
  numeric one. On the code the second part fails: the branch that gives \<open>unknown\<close>
  tests for the names \<open>size_category\<close> and \<open>year_category\<close>, which the builder always
  computes, so every absent name is filled with \<open>0.0\<close>, and at a categorical index
  this becomes the text \<open>0.0\<close>. For the schema \<open>OBJECT\<close>, \<open>MATERIAL\<close>, \<open>width\<close> with the
  categorical indices 0 and 1, the slot \<open>MATERIAL\<close> of the frame is the text \<open>0.0\<close>.
\<close>

theorem absent_categorical_gets_zero:
  "create_all_57_features lib
     (loaded_app_state 0
        (Some \<lparr>feature_names = Some [''OBJECT'', ''MATERIAL'', ''width''],
               categorical_indices = Some [0, 1], n_features = Some 3, other_keys = []\<rparr>))
     picasso_artwork None
   = Inr [(''OBJECT'', S ''painting''), (''MATERIAL'', S ''0.0''), (''width'', F 100)]"
proof -
  let ?db = "init_database empty_database"
  let ?fi = "\<lparr>feature_names = Some [''OBJECT'', ''MATERIAL'', ''width''],
               categorical_indices = Some [0, 1], n_features = Some 3, other_keys = []\<rparr>"
  let ?st = "loaded_app_state 0 (Some ?fi)"
  have g: "get_artist_data lib ?db (artist picasso_artwork)
             = \<lparr>frequency = 150, median_price = 50000, price_std = 25000\<rparr>"
    by (simp add: picasso_artwork_def get_picasso)
  have hw: "height picasso_artwork = 80" "width picasso_artwork = 100"
    "year picasso_artwork = 1907"
    by (simp_all add: picasso_artwork_def)
  obtain fs where c: "compute_features lib (Some ?db) picasso_artwork None = Inr fs"
    using compute_features_succeeds[where lib = lib and inp = picasso_artwork and db = ?db] by (auto simp: g hw)
  have o: "map_of fs ''OBJECT'' = Some (S ''painting'')"
    by (rule categorical_group_lookup[OF c])
       (simp add: categorical_group_def picasso_artwork_def py_lower_def is_ascii_def
          lower_char_def)
  have w: "map_of fs ''width'' = Some (F 100)"
    by (rule numeric_group_lookup[OF c])
       (simp_all add: numeric_group_def picasso_artwork_def)
  have m: "map_of fs ''MATERIAL'' = None"
    by (rule map_of_absent[OF compute_features_names[OF c]]) (simp add: computed_names_def)
  have al: "align_features fs [''OBJECT'', ''MATERIAL'', ''width'']
              = [(''OBJECT'', S ''painting''), (''MATERIAL'', F 0), (''width'', F 100)]"
    by (simp add: align_features_distinct_names fill_feature_def o w m)
  have e: "expected_features_of (feature_info ?st) = Some [''OBJECT'', ''MATERIAL'', ''width'']"
    and ci: "categorical_indices_of (feature_info ?st) = [0, 1]"
    and dbm: "db_manager ?st = Some ?db"
    by (simp_all add: loaded_app_state_def expected_features_of_def categorical_indices_of_def
        dict_truthy_def)
  have s1: "categorical_to_str lib
              [(''OBJECT'', S ''painting''), (''MATERIAL'', F 0), (''width'', F 100)] [0, 1]
            = Inr [(''OBJECT'', S ''painting''), (''MATERIAL'', S ''0.0''), (''width'', F 100)]"
    by (simp add: py_index_def py_str_zero py_str_text)
  have s2: "convert_numeric lib [0, 1]
              [(''OBJECT'', S ''painting''), (''MATERIAL'', S ''0.0''), (''width'', F 100)]
            = Inr [(''OBJECT'', S ''painting''), (''MATERIAL'', S ''0.0''), (''width'', F 100)]"
    by (simp add: convert_numeric_def py_index_def to_numeric_fillna_float)
  have "build_frame lib ?st picasso_artwork None
          = Inr [(''OBJECT'', S ''painting''), (''MATERIAL'', S ''0.0''), (''width'', F 100)]"
    unfolding build_frame_def dbm c e ci Let_def
    by (simp add: al s1 s2 del: categorical_to_str.simps)
  then show ?thesis by (simp add: create_all_57_features_def)
qed

subsection \<open>The image slots of a prediction\<close>











end
